theory Spec2Isabelle
  imports Main "HOL-Library.Word"
begin

unbundle bit_operations_syntax

section \<open>JavaScript numbers and bitwise operators\<close>

text \<open>
  The values that reach the bitwise operators of \<open>metadata-parser.ts\<close> are integers, so a
  JavaScript number is an \<open>int\<close> here. Every bitwise operator of JavaScript first converts
  its operands to 32-bit integers (\<open>ToInt32\<close>: reduction modulo \<open>2 ^ 32\<close>), works on the
  32 bits and reads the result back as a signed 32-bit value. The shift operators use the low
  five bits of the right operand as the shift count; \<open>>>\<close> propagates the sign.
\<close>

definition ToInt32 :: "int \<Rightarrow> 32 word" where
  "ToInt32 n = word_of_int n"

definition js_and :: "int \<Rightarrow> int \<Rightarrow> int" where
  "js_and a b = sint (ToInt32 a AND ToInt32 b)"

definition js_or :: "int \<Rightarrow> int \<Rightarrow> int" where
  "js_or a b = sint (ToInt32 a OR ToInt32 b)"

definition js_shl :: "int \<Rightarrow> int \<Rightarrow> int" where
  "js_shl a n = sint (push_bit (unat (ToInt32 n AND 31)) (ToInt32 a))"

definition js_sar :: "int \<Rightarrow> int \<Rightarrow> int" where
  "js_sar a n = sint (signed_drop_bit (unat (ToInt32 n AND 31)) (ToInt32 a))"

section \<open>Buffers\<close>

text \<open>
  A \<open>Buffer\<close> is a sequence of bytes. Reading \<open>buf[i]\<close> gives the byte as a number between
  0 and 255, and \<open>undefined\<close> (here \<open>None\<close>) when \<open>i\<close> is beyond the end: JavaScript does
  not raise there. Used as the operand of a bitwise operator, \<open>undefined\<close> converts to 0.
\<close>

type_synonym byte = "8 word"
type_synonym Buffer = "byte list"

definition buf_at :: "Buffer \<Rightarrow> nat \<Rightarrow> int option" where
  "buf_at buf i = (if i < length buf then Some (uint (buf ! i)) else None)"

fun operand :: "int option \<Rightarrow> int" where
  "operand None = 0"
| "operand (Some n) = n"

section \<open>Collations (\<open>src/metadata-parser.ts\<close>)\<close>

record CollationFlags =
  fIgnoreCase :: bool
  fIgnoreAccent :: bool
  fIgnoreWidth :: bool
  fIgnoreKana :: bool
  fBinary :: bool
  fBinary2 :: bool
  fUTF8 :: bool
  fReservedBit :: bool

text \<open>
  The interface \<open>Collation\<close>. The field \<open>_flags\<close> is \<open>x_flags\<close> here (a name cannot start
  with an underscore). \<open>sortId\<close> is the fifth byte as it was read, so it is \<open>None\<close>
  (\<open>undefined\<close>) for a buffer shorter than five bytes.
\<close>

record Collation =
  lcid :: int
  flags :: int
  x_flags :: CollationFlags
  version :: int
  sortId :: "int option"
  codepage :: string

text \<open>
  The tables \<open>codepageByLcid\<close> and \<open>codepageBySortId\<close> are imported from \<open>./collation\<close>;
  they are parameters of the decoder: objects keyed by numbers, a missing key reads as
  \<open>undefined\<close> (\<open>None\<close>). The key \<open>undefined\<close> is in neither table.
\<close>

type_synonym codepage_table = "int \<rightharpoonup> string"

definition table_get :: "codepage_table \<Rightarrow> int option \<Rightarrow> string option" where
  "table_get t k = (case k of None \<Rightarrow> None | Some n \<Rightarrow> t n)"

definition fallbackCodepage :: string where
  "fallbackCodepage = ''CP1252''"

text \<open>\<open>_parseCollation\<close>, statement by statement.\<close>

definition parseCollation :: "codepage_table \<Rightarrow> codepage_table \<Rightarrow> Buffer \<Rightarrow> Collation" where
  "parseCollation codepageByLcid codepageBySortId collationData =
    (let lcid0 = js_shl (js_and (operand (buf_at collationData 2)) 0x0F) 16;
         lcid1 = js_or lcid0 (js_shl (operand (buf_at collationData 1)) 8);
         lcid2 = js_or lcid1 (operand (buf_at collationData 0));
         flags = js_or (js_and (operand (buf_at collationData 2)) 0xF0)
                       (js_and (operand (buf_at collationData 3)) 0x0F);
         fl = \<lparr> fIgnoreCase = (js_and flags 0x10 = 0x10),
                fIgnoreAccent = (js_and flags 0x20 = 0x20),
                fIgnoreWidth = (js_and flags 0x80 = 0x80),
                fIgnoreKana = (js_and flags 0x40 = 0x40),
                fBinary = (js_and flags 0x01 = 0x01),
                fBinary2 = (js_and flags 0x02 = 0x02),
                fUTF8 = (js_and flags 0x04 = 0x04),
                fReservedBit = (js_and flags 0x08 = 0x08) \<rparr>;
         version = js_and (js_sar (js_and (operand (buf_at collationData 3)) 0xF0) 4) 0x0F;
         sortId = buf_at collationData 4;
         codepage = (if fUTF8 fl then Some ''utf8''
                     else if sortId = Some 0x00 then table_get codepageByLcid (Some lcid2)
                     else table_get codepageBySortId sortId)
     in \<lparr> lcid = lcid2, flags = flags, x_flags = fl, version = version, sortId = sortId,
          codepage = (case codepage of None \<Rightarrow> fallbackCodepage | Some c \<Rightarrow> c) \<rparr>)"

section \<open>Outcomes of a call\<close>

text \<open>
  What a call of the decoder ends in: the callback was called and gave \<open>r\<close>, or the parser
  is suspended waiting for more bytes, or an error was thrown.
\<close>

datatype js_error = Error string | TypeError string | ERR_OUT_OF_RANGE | ERR_BUFFER_OUT_OF_BOUNDS
  | TypeError_not_a_function

datatype 'r outcome = Delivered 'r | Suspended | Raised js_error

section \<open>The stream parser\<close>

text \<open>
  A JavaScript string is a sequence of 16-bit code units. The parser's state is the bytes
  buffered and not yet consumed; each reader passes the state after its read on to its
  callback.
\<close>

type_synonym js_string = "16 word list"
type_synonym Parser = Buffer

text \<open>The value of a little-endian unsigned integer.\<close>

fun le_nat :: "Buffer \<Rightarrow> nat" where
  "le_nat [] = 0"
| "le_nat (b # bs) = unat b + 256 * le_nat bs"

text \<open>UCS-2 little-endian decoding: two bytes to the code unit.\<close>

fun ucs2 :: "Buffer \<Rightarrow> js_string" where
  "ucs2 (lo # hi # bs) = word_of_nat (unat lo + 256 * unat hi) # ucs2 bs"
| "ucs2 bs = []"

text \<open>
  Modelled from the spec: the primitive readers of \<open>src/token/stream-parser\<close>, which is not
  among the sources. The spec (4.3): each reader takes a byte count and a continuation
  producing the decoded value; when fewer bytes are buffered than required, the reader
  suspends until more are delivered; all integers little-endian; \<open>buffer(n)\<close>;
  \<open>BVARCHAR\<close> reads a u8 count C, then 2 * C bytes decoded as UCS-2 LE; \<open>USVARCHAR\<close> has a
  u16 count.
\<close>

definition awaitData :: "nat \<Rightarrow> (Buffer \<Rightarrow> Parser \<Rightarrow> 'r outcome) \<Rightarrow> Parser \<Rightarrow> 'r outcome" where
  "awaitData n callback parser =
    (if n \<le> length parser then callback (take n parser) (drop n parser) else Suspended)"

definition readUInt8 :: "(nat \<Rightarrow> Parser \<Rightarrow> 'r outcome) \<Rightarrow> Parser \<Rightarrow> 'r outcome" where
  "readUInt8 callback = awaitData 1 (\<lambda>data. callback (le_nat data))"

definition readUInt16LE :: "(nat \<Rightarrow> Parser \<Rightarrow> 'r outcome) \<Rightarrow> Parser \<Rightarrow> 'r outcome" where
  "readUInt16LE callback = awaitData 2 (\<lambda>data. callback (le_nat data))"

definition readUInt32LE :: "(nat \<Rightarrow> Parser \<Rightarrow> 'r outcome) \<Rightarrow> Parser \<Rightarrow> 'r outcome" where
  "readUInt32LE callback = awaitData 4 (\<lambda>data. callback (le_nat data))"

definition readBuffer :: "nat \<Rightarrow> (Buffer \<Rightarrow> Parser \<Rightarrow> 'r outcome) \<Rightarrow> Parser \<Rightarrow> 'r outcome" where
  "readBuffer n callback = awaitData n callback"

definition readBVarChar :: "(js_string \<Rightarrow> Parser \<Rightarrow> 'r outcome) \<Rightarrow> Parser \<Rightarrow> 'r outcome" where
  "readBVarChar callback =
    readUInt8 (\<lambda>count. awaitData (2 * count) (\<lambda>data. callback (ucs2 data)))"

definition readUsVarChar :: "(js_string \<Rightarrow> Parser \<Rightarrow> 'r outcome) \<Rightarrow> Parser \<Rightarrow> 'r outcome" where
  "readUsVarChar callback =
    readUInt16LE (\<lambda>count. awaitData (2 * count) (\<lambda>data. callback (ucs2 data)))"

section \<open>Column metadata (\<open>src/metadata-parser.ts\<close>)\<close>

record XmlSchema =
  dbname :: js_string
  owningSchema :: js_string
  xmlSchemaCollection :: js_string

record UdtInfo =
  maxByteSize :: nat
  dbname :: js_string
  owningSchema :: js_string
  typeName :: js_string
  assemblyName :: js_string

text \<open>
  A \<open>DataType\<close> of the registry: its wire id, wire name and display name (\<open>id\<close>, \<open>type\<close>
  and \<open>name\<close> in the source). The decoder looks at \<open>name\<close> only.
\<close>

record DataType =
  id' :: nat
  type' :: string
  name :: string

text \<open>\<open>BaseMetadata\<close>; an optional field is \<open>None\<close> where the source has \<open>undefined\<close>.\<close>

record Metadata =
  userType :: nat
  flags :: nat
  type :: DataType
  collation :: "Collation option"
  precision :: "nat option"
  scale :: "nat option"
  dataLength :: "nat option"
  schema :: "XmlSchema option"
  udtInfo :: "UdtInfo option"

text \<open>
  The connection options the code reads. \<open>tdsVersion\<close> is \<open>None\<close> when the options object
  has no such property, as in the unit tests, which pass \<open>{}\<close>.
\<close>

record InternalConnectionOptions =
  tdsVersion :: "string option"
  useUTC :: bool

text \<open>
  \<open>a < b\<close> on two strings compares them code unit by code unit, a proper prefix being
  smaller. When the left operand is \<open>undefined\<close> both sides are converted to numbers,
  \<open>undefined\<close> gives \<open>NaN\<close> and the comparison is false.
\<close>

fun string_lt :: "string \<Rightarrow> string \<Rightarrow> bool" where
  "string_lt [] [] = False"
| "string_lt [] (y # ys) = True"
| "string_lt (x # xs) [] = False"
| "string_lt (x # xs) (y # ys) =
    (if (of_char x :: nat) < of_char y then True
     else if (of_char y :: nat) < of_char x then False
     else string_lt xs ys)"

fun js_lt :: "string option \<Rightarrow> string \<Rightarrow> bool" where
  "js_lt None b = False"
| "js_lt (Some a) b = string_lt a b"

text \<open>\<open>sprintf('%02X', n)\<close>: upper-case hexadecimal, padded with zeros to two digits.\<close>

definition hex_digit :: "nat \<Rightarrow> char" where
  "hex_digit d = ''0123456789ABCDEF'' ! d"

function to_hex :: "nat \<Rightarrow> string" where
  "to_hex n = (if n < 16 then [hex_digit n] else to_hex (n div 16) @ [hex_digit (n mod 16)])"
  by pat_completeness auto
termination
  by (relation "measure (\<lambda>n. n)") auto

definition sprintf_02X :: "nat \<Rightarrow> string" where
  "sprintf_02X n = replicate (2 - length (to_hex n)) CHR ''0'' @ to_hex n"

definition readCollation ::
  "codepage_table \<Rightarrow> codepage_table \<Rightarrow> (Collation option \<Rightarrow> Parser \<Rightarrow> 'r outcome)
    \<Rightarrow> Parser \<Rightarrow> 'r outcome" where
  "readCollation codepageByLcid codepageBySortId callback =
    readBuffer 5 (\<lambda>collationData.
      callback (Some (parseCollation codepageByLcid codepageBySortId collationData)))"

definition readSchema :: "(XmlSchema option \<Rightarrow> Parser \<Rightarrow> 'r outcome) \<Rightarrow> Parser \<Rightarrow> 'r outcome" where
  "readSchema callback =
    readUInt8 (\<lambda>schemaPresent.
      if schemaPresent = 0x01 then
        readBVarChar (\<lambda>dbname.
          readBVarChar (\<lambda>owningSchema.
            readUsVarChar (\<lambda>xmlSchemaCollection.
              callback (Some \<lparr> XmlSchema.dbname = dbname, XmlSchema.owningSchema = owningSchema,
                               xmlSchemaCollection = xmlSchemaCollection \<rparr>))))
      else callback None)"

definition readUDTInfo :: "(UdtInfo option \<Rightarrow> Parser \<Rightarrow> 'r outcome) \<Rightarrow> Parser \<Rightarrow> 'r outcome" where
  "readUDTInfo callback =
    readUInt16LE (\<lambda>maxByteSize.
      readBVarChar (\<lambda>dbname.
        readBVarChar (\<lambda>owningSchema.
          readBVarChar (\<lambda>typeName.
            readUsVarChar (\<lambda>assemblyName.
              callback (Some \<lparr> maxByteSize = maxByteSize, dbname = dbname,
                               owningSchema = owningSchema, typeName = typeName,
                               assemblyName = assemblyName \<rparr>))))))"

text \<open>
  The callback that \<open>metadataParse\<close> passes to \<open>parser.readUInt8\<close> (lines 184 to 391): it
  resolves the type id in the registry \<open>TYPE\<close>, imported from \<open>./data-type\<close> and a
  parameter here (\<open>TYPE'\<close>), and decodes the rest of the column by the \<open>switch\<close> on the type's name.
\<close>

definition typeCallback ::
  "codepage_table \<Rightarrow> codepage_table \<Rightarrow> (nat \<rightharpoonup> DataType) \<Rightarrow> (Metadata \<Rightarrow> Parser \<Rightarrow> 'r outcome)
    \<Rightarrow> nat \<Rightarrow> nat \<Rightarrow> nat \<Rightarrow> Parser \<Rightarrow> 'r outcome" where
  "typeCallback codepageByLcid codepageBySortId TYPE' callback =
    (\<lambda>userType flags typeNumber.
     case TYPE' typeNumber of
       None \<Rightarrow> (\<lambda>parser. Raised (Error (''Unrecognised data type 0x'' @ sprintf_02X typeNumber)))
     | Some dataType \<Rightarrow>
        if name dataType \<in> set [''Null'', ''TinyInt'', ''SmallInt'', ''Int'', ''BigInt'', ''Real'',
              ''Float'', ''SmallMoney'', ''Money'', ''Bit'', ''SmallDateTime'', ''DateTime'', ''Date''] then
          callback \<lparr> userType = userType, flags = flags, type = dataType, collation = None,
              precision = None, scale = None, dataLength = None, schema = None,
              udtInfo = None \<rparr>
        else if name dataType \<in> set [''IntN'', ''FloatN'', ''MoneyN'', ''BitN'', ''UniqueIdentifier'', ''DateTimeN''] then
          readUInt8 (\<lambda>dataLength.
            callback \<lparr> userType = userType, flags = flags, type = dataType, collation = None,
              precision = None, scale = None, dataLength = Some dataLength, schema = None,
              udtInfo = None \<rparr>)
        else if name dataType \<in> set [''Variant''] then
          readUInt32LE (\<lambda>dataLength.
            callback \<lparr> userType = userType, flags = flags, type = dataType, collation = None,
              precision = None, scale = None, dataLength = Some dataLength, schema = None,
              udtInfo = None \<rparr>)
        else if name dataType \<in> set [''VarChar'', ''Char'', ''NVarChar'', ''NChar''] then
          readUInt16LE (\<lambda>dataLength.
            readCollation codepageByLcid codepageBySortId (\<lambda>collation.
              callback \<lparr> userType = userType, flags = flags, type = dataType, collation = collation,
              precision = None, scale = None, dataLength = Some dataLength, schema = None,
              udtInfo = None \<rparr>))
        else if name dataType \<in> set [''Text'', ''NText''] then
          readUInt32LE (\<lambda>dataLength.
            readCollation codepageByLcid codepageBySortId (\<lambda>collation.
              callback \<lparr> userType = userType, flags = flags, type = dataType, collation = collation,
              precision = None, scale = None, dataLength = Some dataLength, schema = None,
              udtInfo = None \<rparr>))
        else if name dataType \<in> set [''VarBinary'', ''Binary''] then
          readUInt16LE (\<lambda>dataLength.
            callback \<lparr> userType = userType, flags = flags, type = dataType, collation = None,
              precision = None, scale = None, dataLength = Some dataLength, schema = None,
              udtInfo = None \<rparr>)
        else if name dataType \<in> set [''Image''] then
          readUInt32LE (\<lambda>dataLength.
            callback \<lparr> userType = userType, flags = flags, type = dataType, collation = None,
              precision = None, scale = None, dataLength = Some dataLength, schema = None,
              udtInfo = None \<rparr>)
        else if name dataType \<in> set [''Xml''] then
          readSchema (\<lambda>schema.
            callback \<lparr> userType = userType, flags = flags, type = dataType, collation = None,
              precision = None, scale = None, dataLength = None, schema = schema,
              udtInfo = None \<rparr>)
        else if name dataType \<in> set [''Time'', ''DateTime2'', ''DateTimeOffset''] then
          readUInt8 (\<lambda>scale.
            callback \<lparr> userType = userType, flags = flags, type = dataType, collation = None,
              precision = None, scale = Some scale, dataLength = None, schema = None,
              udtInfo = None \<rparr>)
        else if name dataType \<in> set [''NumericN'', ''DecimalN''] then
          readUInt8 (\<lambda>dataLength.
            readUInt8 (\<lambda>precision.
              readUInt8 (\<lambda>scale.
                callback \<lparr> userType = userType, flags = flags, type = dataType, collation = None,
              precision = Some precision, scale = Some scale, dataLength = Some dataLength, schema = None,
              udtInfo = None \<rparr>)))
        else if name dataType \<in> set [''UDT''] then
          readUDTInfo (\<lambda>udtInfo.
            callback \<lparr> userType = userType, flags = flags, type = dataType, collation = None,
              precision = None, scale = None, dataLength = None, schema = None,
              udtInfo = udtInfo \<rparr>)
        else (\<lambda>parser. Raised (Error (''Unrecognised type '' @ name dataType))))"

text \<open>
  \<open>metadataParse\<close>: \<open>userType\<close> is read by \<open>readUInt16LE\<close> when
  \<open>options.tdsVersion < '7_2'\<close> and by \<open>readUInt32LE\<close> otherwise, then \<open>flags\<close> by
  \<open>readUInt16LE\<close> and the type id by \<open>readUInt8\<close>.
\<close>

definition metadataParse ::
  "codepage_table \<Rightarrow> codepage_table \<Rightarrow> (nat \<rightharpoonup> DataType) \<Rightarrow> InternalConnectionOptions
    \<Rightarrow> (Metadata \<Rightarrow> Parser \<Rightarrow> 'r outcome) \<Rightarrow> Parser \<Rightarrow> 'r outcome" where
  "metadataParse codepageByLcid codepageBySortId TYPE' options callback =
    (if js_lt (tdsVersion options) ''7_2'' then readUInt16LE else readUInt32LE) (\<lambda>userType.
      readUInt16LE (\<lambda>flags.
        readUInt8 (\<lambda>typeNumber.
          typeCallback codepageByLcid codepageBySortId TYPE' callback userType flags typeNumber)))"

text \<open>The callback that hands the metadata, and the parser after it, to the caller.\<close>

definition deliver :: "Metadata \<Rightarrow> Parser \<Rightarrow> (Metadata \<times> Parser) outcome" where
  "deliver metadata parser = Delivered (metadata, parser)"

section \<open>The data type \<open>SmallDateTime\<close>\<close>

text \<open>
  The values a parameter can hold, as far as this data type tells them apart: \<open>null\<close>,
  \<open>undefined\<close>, a \<open>Date\<close>, a \<open>Symbol\<close>, or anything else. A \<open>Date\<close> is its time value, the
  milliseconds since 1970-01-01T00:00:00Z, or \<open>NaN\<close> (\<open>None\<close>) for an invalid date.
  A number that may be \<open>NaN\<close> is an \<open>int option\<close> likewise. All the numbers met here are
  integers below \<open>2 ^ 53\<close> in size, and the quotients taken are far enough from the next
  integer for \<open>Math.floor\<close> of the floating-point quotient to be the integer quotient.
\<close>

datatype 'a js_value = JNull | JUndefined | JDate "int option" | JSymbol | JOther 'a

record 'a Parameter =
  "value" :: "'a js_value"

text \<open>\<open>Date.UTC(1900, 0, 1)\<close>: 25567 days before 1970-01-01.\<close>

definition UTC_EPOCH_DATE :: int where
  "UTC_EPOCH_DATE = - 2208988800000"

text \<open>
  \<open>getUTCHours\<close> and \<open>getUTCMinutes\<close> of a valid date, as ECMAScript defines them:
  \<open>floor (t / msPerHour) modulo 24\<close> and \<open>floor (t / msPerMinute) modulo 60\<close>.
\<close>

definition getUTCHours :: "int \<Rightarrow> int" where
  "getUTCHours t = (t div 3600000) mod 24"

definition getUTCMinutes :: "int \<Rightarrow> int" where
  "getUTCMinutes t = (t div 60000) mod 60"

text \<open>
  The local time zone belongs to the process that runs the code. \<open>LocalTZA\<close> is the local
  time zone adjustment of ECMAScript at a time value, in milliseconds: the local time of
  \<open>t\<close> is \<open>t + LocalTZA t\<close>. \<open>getTimezoneOffset()\<close> is \<open>(t - LocalTime(t)) / msPerMinute\<close>,
  which need not be a whole number of minutes; the source uses it only times \<open>60 * 1000\<close>,
  and \<open>getTimezoneOffset_ms\<close> is that product, an integer. \<open>getHours\<close> and \<open>getMinutes\<close>
  are the hours and minutes of the local time. \<open>EPOCH_DATE\<close> is the time value of
  \<open>new Date(1900, 0, 1)\<close>, local midnight.
\<close>

record TimeZone =
  LocalTZA :: "int \<Rightarrow> int"
  EPOCH_DATE :: int

definition getTimezoneOffset_ms :: "TimeZone \<Rightarrow> int \<Rightarrow> int" where
  "getTimezoneOffset_ms tz t = t - (t + LocalTZA tz t)"

definition getHours :: "TimeZone \<Rightarrow> int \<Rightarrow> int" where
  "getHours tz t = getUTCHours (t + LocalTZA tz t)"

definition getMinutes :: "TimeZone \<Rightarrow> int \<Rightarrow> int" where
  "getMinutes tz t = getUTCMinutes (t + LocalTZA tz t)"

text \<open>
  Node's \<open>Buffer.alloc\<close> gives zero bytes. Node's \<open>buf.writeUInt16LE(value, offset)\<close> throws
  \<open>ERR_OUT_OF_RANGE\<close> when \<open>value > 65535\<close> or \<open>value < 0\<close> (both comparisons are false
  for \<open>NaN\<close>, which is then stored as zero bytes), throws when the two bytes do not fit at
  \<open>offset\<close>, and otherwise stores the low byte at \<open>offset\<close> and the high byte after it.
\<close>

definition Buffer_alloc :: "nat \<Rightarrow> Buffer" where
  "Buffer_alloc n = replicate n 0"

definition writeUInt16LE :: "Buffer \<Rightarrow> int option \<Rightarrow> nat \<Rightarrow> js_error + Buffer" where
  "writeUInt16LE buf v offset =
    (case v of
       None \<Rightarrow> if length buf < offset + 2 then Inl ERR_BUFFER_OUT_OF_BOUNDS
               else Inr (buf[offset := 0, offset + 1 := 0])
     | Some n \<Rightarrow>
         if n > 65535 \<or> n < 0 then Inl ERR_OUT_OF_RANGE
         else if length buf < offset + 2 then Inl ERR_BUFFER_OUT_OF_BOUNDS
         else Inr (buf[offset := word_of_int n, offset + 1 := word_of_int (n div 256)]))"

definition DATA_LENGTH :: Buffer where
  "DATA_LENGTH = [0x04]"

definition NULL_LENGTH :: Buffer where
  "NULL_LENGTH = [0x00]"

text \<open>\<open>value == null\<close> holds for \<open>null\<close> and for \<open>undefined\<close>.\<close>

fun is_nullish :: "'a js_value \<Rightarrow> bool" where
  "is_nullish JNull = True"
| "is_nullish JUndefined = True"
| "is_nullish v = False"

definition generateParameterLength :: "'a Parameter \<Rightarrow> InternalConnectionOptions \<Rightarrow> Buffer" where
  "generateParameterLength parameter options =
    (if is_nullish (value parameter) then NULL_LENGTH else DATA_LENGTH)"

text \<open>
  The day and minute numbers both encoders compute (lines 439 to 447 and 459 to 467, the
  same statements). Calling \<open>getTime\<close> on a value that is not a \<open>Date\<close> throws a
  \<open>TypeError\<close>; on an invalid date every number is \<open>NaN\<close>.
\<close>

definition days_minutes ::
  "TimeZone \<Rightarrow> 'a js_value \<Rightarrow> InternalConnectionOptions \<Rightarrow> js_error + (int option \<times> int option)" where
  "days_minutes tz v options =
    (case v of
       JDate None \<Rightarrow> Inr (None, None)
     | JDate (Some t) \<Rightarrow>
         if useUTC options then
           Inr (Some ((t - UTC_EPOCH_DATE) div (1000 * 60 * 60 * 24)),
                Some (getUTCHours t * 60 + getUTCMinutes t))
         else
           (let dstDiff = - (getTimezoneOffset_ms tz t - getTimezoneOffset_ms tz (EPOCH_DATE tz))
            in Inr (Some ((t - EPOCH_DATE tz + dstDiff) div (1000 * 60 * 60 * 24)),
                    Some (getHours tz t * 60 + getMinutes tz t)))
     | _ \<Rightarrow> Inl TypeError_not_a_function)"

text \<open>
  \<open>generateParameterData\<close> is a generator: the result is the list of the chunks it
  yields, or the error thrown while it runs.
\<close>

definition generateParameterData ::
  "TimeZone \<Rightarrow> 'a Parameter \<Rightarrow> InternalConnectionOptions \<Rightarrow> js_error + Buffer list" where
  "generateParameterData tz parameter options =
    (if is_nullish (value parameter) then Inr []
     else
       (let buffer = Buffer_alloc 4 in
        case days_minutes tz (value parameter) options of
          Inl e \<Rightarrow> Inl e
        | Inr (days, minutes) \<Rightarrow>
            (case writeUInt16LE buffer days 0 of
               Inl e \<Rightarrow> Inl e
             | Inr buffer1 \<Rightarrow>
                 (case writeUInt16LE buffer1 minutes 2 of
                    Inl e \<Rightarrow> Inl e
                  | Inr buffer2 \<Rightarrow> Inr [buffer2]))))"

definition toBuffer ::
  "TimeZone \<Rightarrow> 'a Parameter \<Rightarrow> InternalConnectionOptions \<Rightarrow> js_error + Buffer" where
  "toBuffer tz parameter options =
    (let v = value parameter in
     if \<not> is_nullish v then
       (case days_minutes tz v options of
          Inl e \<Rightarrow> Inl e
        | Inr (days, minutes) \<Rightarrow>
            (let result = Buffer_alloc 4 in
             case writeUInt16LE result days 0 of
               Inl e \<Rightarrow> Inl e
             | Inr result1 \<Rightarrow>
                 (case writeUInt16LE result1 minutes 2 of
                    Inl e \<Rightarrow> Inl e
                  | Inr result2 \<Rightarrow> Inr result2)))
     else Inr [])"

text \<open>
  \<open>validate\<close> returns \<open>null\<close>, a \<open>Date\<close> or a \<open>TypeError\<close> object. It has no \<open>throw\<close> and
  no \<open>try\<close>, so it throws what \<open>Date.parse\<close> throws. \<open>Date.parse\<close> belongs to the platform:
  it converts its argument to a string first, which throws a \<open>TypeError\<close> for a \<open>Symbol\<close>
  and can throw for an object (its \<open>toString\<close> runs); then it gives a time value or
  \<open>NaN\<close>. For the values other than a \<open>Symbol\<close> it is a parameter, \<open>Inl\<close> what it throws.
  \<open>new Date(x)\<close> of its result has the time value \<open>x\<close>, and \<open>isNaN\<close> of a \<open>Date\<close> tells
  whether its time value is \<open>NaN\<close>. The result of \<open>validate\<close> is \<open>Inl\<close> the error thrown or
  \<open>Inr\<close> the value returned.
\<close>

datatype validated = ReturnedNull | ReturnedDate "int option" | ReturnedTypeError string

text \<open>
  Lines 484 to 486: the time value of \<open>value\<close> afterwards, that of the \<open>Date\<close> passed in or
  of \<open>new Date(Date.parse(value))\<close>. (\<open>Date.parse\<close> of \<open>null\<close> and of \<open>undefined\<close> is
  \<open>NaN\<close>; \<open>validate\<close> has returned before for these.)
\<close>

fun coerce_Date :: "('a \<Rightarrow> js_error + int option) \<Rightarrow> 'a js_value \<Rightarrow> js_error + int option" where
  "coerce_Date Date_parse (JDate d) = Inr d"
| "coerce_Date Date_parse JSymbol = Inl (TypeError ''Cannot convert a Symbol value to a string'')"
| "coerce_Date Date_parse (JOther x) = Date_parse x"
| "coerce_Date Date_parse v = Inr None"

definition validate :: "('a \<Rightarrow> js_error + int option) \<Rightarrow> 'a js_value \<Rightarrow> js_error + validated" where
  "validate Date_parse v =
    (if is_nullish v then Inr ReturnedNull
     else
       (case coerce_Date Date_parse v of
          Inl e \<Rightarrow> Inl e
        | Inr d \<Rightarrow>
            if d = None then Inr (ReturnedTypeError ''Invalid date.'') else Inr (ReturnedDate d)))"

section \<open>The bulk-load handle\<close>

text \<open>
  Modelled from the spec: the bulk-load handle (\<open>newBulkLoad\<close>, \<open>addColumn\<close>) and
  \<open>execBulkLoad\<close>, whose code is not among the sources; only their integration tests are.
  The spec (3 and 4.6): a handle holds the table name, the ordered list of columns and a
  phase among \<open>configuring\<close>, \<open>executing\<close>, \<open>cancelled\<close>, \<open>completed\<close> and \<open>errored\<close>.
  \<open>newBulkLoad\<close> returns a handle in phase \<open>configuring\<close>. \<open>addColumn\<close> appends a column
  and is valid only in phase \<open>configuring\<close>; otherwise it fails with the message
  \<open>Columns cannot be added to bulk insert after execution has started.\<close>
  \<open>execBulkLoad\<close> moves the phase to \<open>executing\<close>, one way; a handle cancelled before
  execution finishes at once with \<open>Canceled.\<close>. During execution a cancel or the timer
  ends the load as cancelled, a validation error, a failure of the row source or a server
  error ends it as errored, and the server's final DONE completes it; after that a cancel
  and a late timer are no-ops.
\<close>

datatype phase = configuring | executing | cancelled | completed | errored

record ColumnOptions =
  nullable :: bool
  length' :: "nat option"
  precision' :: "nat option"
  scale' :: "nat option"
  objName :: "string option"

record ColumnDef =
  columnName :: string
  columnType :: DataType
  columnOptions :: ColumnOptions

record BulkLoad =
  tableName :: string
  columns :: "ColumnDef list"
  phase :: phase
  timeoutMs :: "nat option"

text \<open>A row source is synchronous or asynchronous; it yields finitely many rows.\<close>

datatype 'row RowSource = SyncRows "'row list" | AsyncRows "'row list"

definition newBulkLoad :: "string \<Rightarrow> BulkLoad" where
  "newBulkLoad table = \<lparr> tableName = table, columns = [], phase = configuring, timeoutMs = None \<rparr>"

definition addColumn :: "BulkLoad \<Rightarrow> string \<Rightarrow> DataType \<Rightarrow> ColumnOptions \<Rightarrow> js_error + BulkLoad" where
  "addColumn h colName colType opts =
    (if phase h = configuring then
       Inr (h\<lparr> columns := columns h
                 @ [\<lparr> columnName = colName, columnType = colType, columnOptions = opts \<rparr>] \<rparr>)
     else Inl (Error ''Columns cannot be added to bulk insert after execution has started.''))"

definition execBulkLoad :: "BulkLoad \<Rightarrow> 'row RowSource \<Rightarrow> BulkLoad" where
  "execBulkLoad h rows = (if phase h = configuring then h\<lparr> phase := executing \<rparr> else h)"

text \<open>What can happen to a handle once it exists.\<close>

datatype event = RowPulled | ValidationFailed | RowSourceFailed | CancelCalled | TimerFired
  | ServerError | FinalDone

fun step :: "BulkLoad \<Rightarrow> event \<Rightarrow> BulkLoad" where
  "step h RowPulled = h"
| "step h CancelCalled =
    (if phase h = configuring \<or> phase h = executing then h\<lparr> phase := cancelled \<rparr> else h)"
| "step h TimerFired = (if phase h = executing then h\<lparr> phase := cancelled \<rparr> else h)"
| "step h FinalDone = (if phase h = executing then h\<lparr> phase := completed \<rparr> else h)"
| "step h e = (if phase h = executing then h\<lparr> phase := errored \<rparr> else h)"

section \<open>Sample data and auxiliary notions\<close>

text \<open>The names the \<open>switch\<close> of \<open>metadataParse\<close> has a \<open>case\<close> for, in its order.\<close>

definition switch_names :: "string list" where
  "switch_names =
    [''Null'', ''TinyInt'', ''SmallInt'', ''Int'', ''BigInt'', ''Real'', ''Float'',
     ''SmallMoney'', ''Money'', ''Bit'', ''SmallDateTime'', ''DateTime'', ''Date'',
     ''IntN'', ''FloatN'', ''MoneyN'', ''BitN'', ''UniqueIdentifier'', ''DateTimeN'',
     ''Variant'',
     ''VarChar'', ''Char'', ''NVarChar'', ''NChar'',
     ''Text'', ''NText'',
     ''VarBinary'', ''Binary'',
     ''Image'',
     ''Xml'',
     ''Time'', ''DateTime2'', ''DateTimeOffset'',
     ''NumericN'', ''DecimalN'',
     ''UDT'']"

text \<open>
  A registry and connection options, for concrete instances. The registry has one type
  of each kind of column that the \<open>switch\<close> tells apart, with the wire ids of TDS, and
  the legacy fixed-length \<open>DECIMAL\<close> (\<open>0x37\<close>), a type with a name that the \<open>switch\<close> has
  no \<open>case\<close> for.
\<close>

definition TYPE_sample :: "nat \<rightharpoonup> DataType" where
  "TYPE_sample =
    [0x38 \<mapsto> \<lparr> id' = 0x38, type' = ''INT4'', name = ''Int'' \<rparr>,
     0x26 \<mapsto> \<lparr> id' = 0x26, type' = ''INTN'', name = ''IntN'' \<rparr>,
     0x62 \<mapsto> \<lparr> id' = 0x62, type' = ''SSVARIANT'', name = ''Variant'' \<rparr>,
     0xA7 \<mapsto> \<lparr> id' = 0xA7, type' = ''BIGVARCHR'', name = ''VarChar'' \<rparr>,
     0x23 \<mapsto> \<lparr> id' = 0x23, type' = ''TEXT'', name = ''Text'' \<rparr>,
     0xA5 \<mapsto> \<lparr> id' = 0xA5, type' = ''BIGVARBIN'', name = ''VarBinary'' \<rparr>,
     0xF1 \<mapsto> \<lparr> id' = 0xF1, type' = ''XML'', name = ''Xml'' \<rparr>,
     0x29 \<mapsto> \<lparr> id' = 0x29, type' = ''TIMEN'', name = ''Time'' \<rparr>,
     0x6C \<mapsto> \<lparr> id' = 0x6C, type' = ''NUMERICN'', name = ''NumericN'' \<rparr>,
     0xF0 \<mapsto> \<lparr> id' = 0xF0, type' = ''UDTTYPE'', name = ''UDT'' \<rparr>,
     0x37 \<mapsto> \<lparr> id' = 0x37, type' = ''DECIMAL'', name = ''Decimal'' \<rparr>]"

definition options_sample :: InternalConnectionOptions where
  "options_sample = \<lparr> tdsVersion = Some ''7_4'', useUTC = True \<rparr>"

text \<open>
  A stand-in for \<open>Date.parse\<close> on strings: the epoch in ISO format has the time value 0,
  and a string it takes for no date gives \<open>NaN\<close>.
\<close>

definition Date_parse_sample :: "string \<Rightarrow> js_error + int option" where
  "Date_parse_sample s = (if s = ''1970-01-01T00:00:00.000Z'' then Inr (Some 0) else Inr None)"

text \<open>A process whose local time is UTC.\<close>

definition UTC_zone :: TimeZone where
  "UTC_zone = \<lparr> LocalTZA = (\<lambda>t. 0), EPOCH_DATE = UTC_EPOCH_DATE \<rparr>"

text \<open>
  Three ways to speak of a reader: every record it delivers satisfies \<open>Q\<close>; it delivers
  whenever at least \<open>n\<close> bytes are buffered; it never raises.
\<close>

definition delivered_sat :: "(Metadata \<Rightarrow> bool) \<Rightarrow> (Metadata \<times> Parser) outcome \<Rightarrow> bool" where
  "delivered_sat Q out = (case out of Delivered (md, p) \<Rightarrow> Q md | _ \<Rightarrow> True)"

definition delivers_from :: "nat \<Rightarrow> (Parser \<Rightarrow> 'r outcome) \<Rightarrow> bool" where
  "delivers_from n k = (\<forall>p. n \<le> length p \<longrightarrow> (\<exists>r. k p = Delivered r))"

definition never_raises :: "(Parser \<Rightarrow> 'r outcome) \<Rightarrow> bool" where
  "never_raises k = (\<forall>p e. k p \<noteq> Raised e)"

section \<open>Properties of the collation decoder\<close>

lemma sint_ToInt32: "0 \<le> a \<Longrightarrow> a < 2 ^ 31 \<Longrightarrow> sint (ToInt32 a) = a"
  unfolding ToInt32_def by (simp add: sint_sbintrunc' signed_take_bit_int_eq_self)

lemma js_and_small: "0 \<le> a \<Longrightarrow> a < 2 ^ 31 \<Longrightarrow> 0 \<le> b \<Longrightarrow> js_and a b = a AND b"
proof -
  assume a: "0 \<le> a" "a < 2 ^ 31" and b: "0 \<le> b"
  have "a AND b \<le> a" using a by (simp add: AND_upper1)
  then have lt: "a AND b < 2 ^ 31" using a by linarith
  have ge: "0 \<le> a AND b" using a by simp
  have "ToInt32 a AND ToInt32 b = ToInt32 (a AND b)"
    by (simp add: ToInt32_def word_wi_log_defs)
  then show ?thesis using sint_ToInt32 [OF ge lt] by (simp add: js_and_def)
qed

lemma js_or_small: "0 \<le> a \<Longrightarrow> a < 2 ^ 31 \<Longrightarrow> 0 \<le> b \<Longrightarrow> b < 2 ^ 31 \<Longrightarrow> js_or a b = a OR b"
proof -
  assume a: "0 \<le> a" "a < 2 ^ 31" and b: "0 \<le> b" "b < 2 ^ 31"
  have lt: "a OR b < 2 ^ 31" using a b(2) by (rule OR_upper)
  have ge: "0 \<le> a OR b" using a b by simp
  have "ToInt32 a OR ToInt32 b = ToInt32 (a OR b)"
    by (simp add: ToInt32_def word_wi_log_defs)
  then show ?thesis using sint_ToInt32 [OF ge lt] by (simp add: js_or_def)
qed

lemma shift_count_16: "unat (ToInt32 16 AND 31) = 16"
  by (simp add: ToInt32_def)

lemma shift_count_8: "unat (ToInt32 8 AND 31) = 8"
  by (simp add: ToInt32_def)

lemma shift_count_4: "unat (ToInt32 4 AND 31) = 4"
  by (simp add: ToInt32_def)

lemma push_bit_ToInt32: "push_bit n (ToInt32 a) = ToInt32 (push_bit n a)"
  by (simp add: ToInt32_def push_bit_of_int)

lemma js_shl_16: "0 \<le> a \<Longrightarrow> a < 2 ^ 15 \<Longrightarrow> js_shl a 16 = push_bit 16 a"
proof -
  assume a: "0 \<le> a" "a < 2 ^ 15"
  have ge: "0 \<le> push_bit 16 a" using a by simp
  have lt: "push_bit 16 a < 2 ^ 31" using a by (simp add: push_bit_eq_mult)
  show ?thesis
    using sint_ToInt32 [OF ge lt] by (simp add: js_shl_def shift_count_16 push_bit_ToInt32)
qed

lemma js_shl_8: "0 \<le> a \<Longrightarrow> a < 2 ^ 23 \<Longrightarrow> js_shl a 8 = push_bit 8 a"
proof -
  assume a: "0 \<le> a" "a < 2 ^ 23"
  have ge: "0 \<le> push_bit 8 a" using a by simp
  have lt: "push_bit 8 a < 2 ^ 31" using a by (simp add: push_bit_eq_mult)
  show ?thesis
    using sint_ToInt32 [OF ge lt] by (simp add: js_shl_def shift_count_8 push_bit_ToInt32)
qed

lemma js_sar_4: "0 \<le> a \<Longrightarrow> a < 2 ^ 31 \<Longrightarrow> js_sar a 4 = drop_bit 4 a"
  by (simp add: js_sar_def shift_count_4 sint_signed_drop_bit_eq sint_ToInt32)

lemma byte_range: "0 \<le> uint (b :: byte)" "uint (b :: byte) < 256"
  using uint_lt2p [of b] by simp_all

lemma and_byte_nonneg: "0 \<le> uint (b :: byte) AND m"
  by simp

lemma and_byte_le_mask: "0 \<le> m \<Longrightarrow> uint (b :: byte) AND m \<le> m"
  by (rule AND_upper2)

lemma and_byte_less: "uint (b :: byte) AND m < 256"
proof -
  have "uint b AND m \<le> uint b" by (rule AND_upper1) simp
  then show ?thesis using byte_range(2) [of b] by linarith
qed

lemma js_and_byte: "0 \<le> m \<Longrightarrow> js_and (uint (b :: byte)) m = uint b AND m"
  using byte_range [of b] by (intro js_and_small) simp_all

lemma lcid_bytes:
  "js_or (js_or (js_shl (js_and (uint (b2 :: byte)) 0x0F) 16) (js_shl (uint (b1 :: byte)) 8))
         (uint (b0 :: byte))
   = (push_bit 16 (uint b2 AND 0x0F) OR push_bit 8 (uint b1)) OR uint b0"
proof -
  let ?hi = "uint b2 AND 0x0F"
  have hi: "0 \<le> ?hi" "?hi \<le> 15" using and_byte_nonneg [of b2 15] and_byte_le_mask [of 15 b2] by simp_all
  have b1: "0 \<le> uint b1" "uint b1 < 256" and b0: "0 \<le> uint b0" "uint b0 < 256"
    by (rule byte_range)+
  have s16: "js_shl (js_and (uint b2) 0x0F) 16 = push_bit 16 ?hi"
    using hi by (simp add: js_and_byte js_shl_16)
  have s8: "js_shl (uint b1) 8 = push_bit 8 (uint b1)"
    using b1 by (simp add: js_shl_8)
  have p16: "0 \<le> push_bit 16 ?hi" "push_bit 16 ?hi < 2 ^ 20"
    using hi by (simp_all add: push_bit_eq_mult)
  have p8: "0 \<le> push_bit 8 (uint b1)" "push_bit 8 (uint b1) < 2 ^ 20"
    using b1 by (simp_all add: push_bit_eq_mult)
  have o1: "0 \<le> push_bit 16 ?hi OR push_bit 8 (uint b1)"
    "push_bit 16 ?hi OR push_bit 8 (uint b1) < 2 ^ 20"
    using p16 p8 by (simp, intro OR_upper)
  have "js_or (push_bit 16 ?hi) (push_bit 8 (uint b1)) = push_bit 16 ?hi OR push_bit 8 (uint b1)"
    using p16 p8 by (intro js_or_small) simp_all
  moreover have "js_or (push_bit 16 ?hi OR push_bit 8 (uint b1)) (uint b0)
      = (push_bit 16 ?hi OR push_bit 8 (uint b1)) OR uint b0"
    using o1 b0 by (intro js_or_small) simp_all
  ultimately show ?thesis by (simp only: s16 s8)
qed

lemma flags_bytes:
  "js_or (js_and (uint (b2 :: byte)) 0xF0) (js_and (uint (b3 :: byte)) 0x0F)
   = (uint b2 AND 0xF0) OR (uint b3 AND 0x0F)"
proof -
  have "js_or (uint b2 AND 0xF0) (uint b3 AND 0x0F) = (uint b2 AND 0xF0) OR (uint b3 AND 0x0F)"
    using and_byte_nonneg [of b2 "0xF0"] and_byte_less [of b2 "0xF0"]
      and_byte_nonneg [of b3 "0x0F"] and_byte_less [of b3 "0x0F"]
    by (intro js_or_small) simp_all
  then show ?thesis by (simp add: js_and_byte)
qed

lemma flags_range:
  "0 \<le> (uint (b2 :: byte) AND 0xF0) OR (uint (b3 :: byte) AND 0x0F)"
  "(uint (b2 :: byte) AND 0xF0) OR (uint (b3 :: byte) AND 0x0F) < 256"
proof -
  show "0 \<le> (uint b2 AND 0xF0) OR (uint b3 AND 0x0F)" by simp
  have "(uint b2 AND 0xF0) OR (uint b3 AND 0x0F) < 2 ^ 8"
    using and_byte_nonneg [of b2 "0xF0"] and_byte_less [of b2 "0xF0"]
      and_byte_nonneg [of b3 "0x0F"] and_byte_less [of b3 "0x0F"]
    by (intro OR_upper) simp_all
  then show "(uint b2 AND 0xF0) OR (uint b3 AND 0x0F) < 256" by simp
qed

lemma nibble_div: "0 \<le> (x :: int) \<Longrightarrow> x < 256 \<Longrightarrow> 0 \<le> x div 16 \<and> x div 16 < 16"
  by arith

lemma and_15_id: "0 \<le> (x :: int) \<Longrightarrow> x < 16 \<Longrightarrow> x AND 0x0F = x"
proof -
  assume x: "0 \<le> x" "x < 16"
  have "take_bit 4 x = x" using x by (simp add: take_bit_int_eq_self)
  then have "x AND mask 4 = x" by (simp only: take_bit_eq_mask)
  then show ?thesis by (simp add: mask_eq_exp_minus_1)
qed

lemma version_bytes:
  "js_and (js_sar (js_and (uint (b3 :: byte)) 0xF0) 4) 0x0F = drop_bit 4 (uint b3 AND 0xF0)"
proof -
  let ?v = "uint b3 AND 0xF0"
  have v: "0 \<le> ?v" "?v < 256" using and_byte_nonneg [of b3 "0xF0"] and_byte_less [of b3 "0xF0"] by simp_all
  have d: "0 \<le> drop_bit 4 ?v" "drop_bit 4 ?v < 16"
    using v nibble_div [of ?v] by (simp_all add: drop_bit_eq_div)
  have "js_and (drop_bit 4 ?v) 0x0F = drop_bit 4 ?v AND 0x0F"
    using d by (intro js_and_small) simp_all
  moreover have "drop_bit 4 ?v AND 0x0F = drop_bit 4 ?v"
    using d by (rule and_15_id)
  moreover have "js_sar (js_and (uint b3) 0xF0) 4 = drop_bit 4 ?v"
    using v by (simp add: js_and_byte js_sar_4)
  ultimately show ?thesis by simp
qed

text \<open>
  Claim C1. For every 5-byte buffer, the collation that \<open>_parseCollation\<close> returns has
  \<open>lcid = ((b2 & 0x0F) << 16) | (b1 << 8) | b0\<close>, \<open>flags = (b2 & 0xF0) | (b3 & 0x0F)\<close>,
  \<open>version = (b3 & 0xF0) >> 4\<close> and \<open>sortId = b4\<close>, the right-hand sides read as
  operations on the integers: the 32-bit arithmetic of JavaScript never wraps here, and the
  last mask of the source's \<open>version\<close> changes nothing.
\<close>

theorem parseCollation_fields:
  "lcid (parseCollation byLcid bySortId [b0, b1, b2, b3, b4])
     = (push_bit 16 (uint b2 AND 0x0F) OR push_bit 8 (uint b1)) OR uint b0
   \<and> Collation.flags (parseCollation byLcid bySortId [b0, b1, b2, b3, b4])
     = (uint b2 AND 0xF0) OR (uint b3 AND 0x0F)
   \<and> version (parseCollation byLcid bySortId [b0, b1, b2, b3, b4])
     = drop_bit 4 (uint b3 AND 0xF0)
   \<and> sortId (parseCollation byLcid bySortId [b0, b1, b2, b3, b4]) = Some (uint b4)"
  by (simp add: parseCollation_def Let_def buf_at_def lcid_bytes flags_bytes version_bytes)

lemma and_exp_eq_exp_iff: "((a :: int) AND 2 ^ n = 2 ^ n) = bit a n"
proof (cases "bit a n")
  case True
  then have "a AND 2 ^ n = 2 ^ n"
    by (intro bit_eqI) (auto simp add: bit_and_iff bit_exp_iff)
  with True show ?thesis by simp
next
  case False
  then have "a AND 2 ^ n = 0" by (simp add: and_exp_eq_0_iff_not_bit)
  with False show ?thesis by simp
qed

lemma operand_buf_at_range: "0 \<le> operand (buf_at buf i)" "operand (buf_at buf i) < 256"
  using byte_range by (simp_all add: buf_at_def)

lemma flags_value:
  assumes "0 \<le> x" "x < 256" "0 \<le> y" "y < 256"
  shows "js_or (js_and x 0xF0) (js_and y 0x0F) = (x AND 0xF0) OR (y AND 0x0F)"
    and "0 \<le> (x AND 0xF0) OR (y AND 0x0F)"
    and "(x AND 0xF0) OR (y AND 0x0F) < 256"
proof -
  have x: "0 \<le> x AND 0xF0" "x AND 0xF0 < 2 ^ 8"
    using assms AND_upper1 [of x "0xF0"] by simp_all
  have y: "0 \<le> y AND 0x0F" "y AND 0x0F < 2 ^ 8"
    using assms AND_upper1 [of y "0x0F"] by simp_all
  have a: "js_and x 0xF0 = x AND 0xF0" "js_and y 0x0F = y AND 0x0F"
    using assms by (simp_all add: js_and_small)
  have "js_or (x AND 0xF0) (y AND 0x0F) = (x AND 0xF0) OR (y AND 0x0F)"
    using x y by (intro js_or_small) simp_all
  then show "js_or (js_and x 0xF0) (js_and y 0x0F) = (x AND 0xF0) OR (y AND 0x0F)"
    by (simp only: a)
  show "0 \<le> (x AND 0xF0) OR (y AND 0x0F)" using x y by simp
  have "(x AND 0xF0) OR (y AND 0x0F) < 2 ^ 8" using x y(2) by (rule OR_upper)
  then show "(x AND 0xF0) OR (y AND 0x0F) < 256" by simp
qed

lemma flag_test:
  assumes "0 \<le> f" "f < 256"
  shows "(js_and f (2 ^ n) = 2 ^ n) = bit f n"
proof -
  have "js_and f (2 ^ n) = f AND 2 ^ n" using assms by (intro js_and_small) simp_all
  then show ?thesis by (simp only: and_exp_eq_exp_iff)
qed

lemma flag_tests:
  assumes "0 \<le> f" "f < 256"
  shows "(js_and f 0x10 = 0x10) = bit f 4" "(js_and f 0x20 = 0x20) = bit f 5"
    "(js_and f 0x40 = 0x40) = bit f 6" "(js_and f 0x80 = 0x80) = bit f 7"
    "(js_and f 0x01 = 0x01) = bit f 0" "(js_and f 0x02 = 0x02) = bit f 1"
    "(js_and f 0x04 = 0x04) = bit f 2" "(js_and f 0x08 = 0x08) = bit f 3"
  using flag_test [OF assms, of 4] flag_test [OF assms, of 5] flag_test [OF assms, of 6]
    flag_test [OF assms, of 7] flag_test [OF assms, of 0] flag_test [OF assms, of 1]
    flag_test [OF assms, of 2] flag_test [OF assms, of 3]
  by simp_all

lemma parseCollation_flags_eq:
  "Collation.flags (parseCollation byLcid bySortId buf)
    = (operand (buf_at buf 2) AND 0xF0) OR (operand (buf_at buf 3) AND 0x0F)"
  using flags_value(1) [OF operand_buf_at_range operand_buf_at_range, of buf 2 buf 3]
  by (simp add: parseCollation_def Let_def)

lemma parseCollation_flags_range:
  "0 \<le> Collation.flags (parseCollation byLcid bySortId buf)"
  "Collation.flags (parseCollation byLcid bySortId buf) < 256"
  using flags_value(2,3) [OF operand_buf_at_range operand_buf_at_range, of buf 2 buf 3]
  by (simp_all only: parseCollation_flags_eq)

lemma parseCollation_x_flags:
  "x_flags (parseCollation byLcid bySortId buf)
    = (let flags = Collation.flags (parseCollation byLcid bySortId buf) in
       \<lparr> fIgnoreCase = (js_and flags 0x10 = 0x10),
         fIgnoreAccent = (js_and flags 0x20 = 0x20),
         fIgnoreWidth = (js_and flags 0x80 = 0x80),
         fIgnoreKana = (js_and flags 0x40 = 0x40),
         fBinary = (js_and flags 0x01 = 0x01),
         fBinary2 = (js_and flags 0x02 = 0x02),
         fUTF8 = (js_and flags 0x04 = 0x04),
         fReservedBit = (js_and flags 0x08 = 0x08) \<rparr>)"
  by (simp add: parseCollation_def Let_def)

text \<open>
  Claim C9. In every collation that \<open>_parseCollation\<close> returns, whatever the buffer, each
  of the eight booleans of \<open>_flags\<close> is true exactly when its bit is set in the \<open>flags\<close>
  field: \<open>fIgnoreCase\<close> is bit 4 (\<open>0x10\<close>), \<open>fIgnoreAccent\<close> bit 5 (\<open>0x20\<close>),
  \<open>fIgnoreKana\<close> bit 6 (\<open>0x40\<close>), \<open>fIgnoreWidth\<close> bit 7 (\<open>0x80\<close>), \<open>fBinary\<close> bit 0
  (\<open>0x01\<close>), \<open>fBinary2\<close> bit 1 (\<open>0x02\<close>), \<open>fUTF8\<close> bit 2 (\<open>0x04\<close>) and
  \<open>fReservedBit\<close> bit 3 (\<open>0x08\<close>).
\<close>

theorem parseCollation_flag_bits:
  "fIgnoreCase (x_flags (parseCollation byLcid bySortId buf))
      = bit (Collation.flags (parseCollation byLcid bySortId buf)) 4
   \<and> fIgnoreAccent (x_flags (parseCollation byLcid bySortId buf))
      = bit (Collation.flags (parseCollation byLcid bySortId buf)) 5
   \<and> fIgnoreKana (x_flags (parseCollation byLcid bySortId buf))
      = bit (Collation.flags (parseCollation byLcid bySortId buf)) 6
   \<and> fIgnoreWidth (x_flags (parseCollation byLcid bySortId buf))
      = bit (Collation.flags (parseCollation byLcid bySortId buf)) 7
   \<and> fBinary (x_flags (parseCollation byLcid bySortId buf))
      = bit (Collation.flags (parseCollation byLcid bySortId buf)) 0
   \<and> fBinary2 (x_flags (parseCollation byLcid bySortId buf))
      = bit (Collation.flags (parseCollation byLcid bySortId buf)) 1
   \<and> fUTF8 (x_flags (parseCollation byLcid bySortId buf))
      = bit (Collation.flags (parseCollation byLcid bySortId buf)) 2
   \<and> fReservedBit (x_flags (parseCollation byLcid bySortId buf))
      = bit (Collation.flags (parseCollation byLcid bySortId buf)) 3"
  by (simp only: parseCollation_x_flags Let_def CollationFlags.simps
      flag_tests [OF parseCollation_flags_range] simp_thms)

lemma parseCollation_codepage:
  "codepage (parseCollation byLcid bySortId buf)
    = (let c = parseCollation byLcid bySortId buf;
           cp = (if fUTF8 (x_flags c) then Some ''utf8''
                 else if sortId c = Some 0 then table_get byLcid (Some (lcid c))
                 else table_get bySortId (sortId c))
       in case cp of None \<Rightarrow> fallbackCodepage | Some s \<Rightarrow> s)"
  by (simp add: parseCollation_def Let_def)

lemma utf8_bit:
  "bit ((uint (b2 :: byte) AND 0xF0) OR (uint (b3 :: byte) AND 0x0F)) 2 = bit (uint b3) 2"
proof -
  have "\<not> bit (0xF0 :: int) 2" by simp
  moreover have "bit (0x0F :: int) 2" by simp
  ultimately show ?thesis by (simp add: bit_or_iff bit_and_iff)
qed

text \<open>
  Claim C2. For every 5-byte buffer, the codepage of the result is \<open>utf8\<close> when the
  \<open>fUTF8\<close> flag, bit \<open>0x04\<close> of the fourth byte, is set; otherwise, when \<open>sortId\<close>, the
  fifth byte, is 0, the entry of the table by LCID for the \<open>lcid\<close> decoded from the first
  three bytes; otherwise the entry of the table by sort id for \<open>sortId\<close>; and \<open>CP1252\<close>
  whenever the table that was chosen has no entry.
\<close>

theorem parseCollation_codepage_order:
  "codepage (parseCollation byLcid bySortId [b0, b1, b2, b3, b4])
    = (if bit (uint b3) 2 then ''utf8''
       else if b4 = 0
       then (case byLcid ((push_bit 16 (uint b2 AND 0x0F) OR push_bit 8 (uint b1)) OR uint b0) of
               Some cp \<Rightarrow> cp | None \<Rightarrow> ''CP1252'')
       else (case bySortId (uint b4) of Some cp \<Rightarrow> cp | None \<Rightarrow> ''CP1252''))"
proof -
  let ?c = "parseCollation byLcid bySortId [b0, b1, b2, b3, b4]"
  have sid: "sortId ?c = Some (uint b4)"
    by (simp add: parseCollation_def Let_def buf_at_def)
  have lc: "lcid ?c = (push_bit 16 (uint b2 AND 0x0F) OR push_bit 8 (uint b1)) OR uint b0"
    by (simp add: parseCollation_def Let_def buf_at_def lcid_bytes)
  have fl: "Collation.flags ?c = (uint b2 AND 0xF0) OR (uint b3 AND 0x0F)"
    by (simp add: parseCollation_flags_eq buf_at_def)
  have "fUTF8 (x_flags ?c) = bit (Collation.flags ?c) 2"
    by (simp only: parseCollation_x_flags Let_def CollationFlags.simps
        flag_tests [OF parseCollation_flags_range])
  then have u: "fUTF8 (x_flags ?c) = bit (uint b3) 2"
    by (simp only: fl utf8_bit)
  have z: "(uint b4 = 0) = (b4 = 0)"
    by (simp add: uint_0_iff)
  have "codepage ?c
      = (case (if bit (uint b3) 2 then Some ''utf8''
               else if Some (uint b4) = Some 0
               then table_get byLcid
                 (Some ((push_bit 16 (uint b2 AND 0x0F) OR push_bit 8 (uint b1)) OR uint b0))
               else table_get bySortId (Some (uint b4))) of
           None \<Rightarrow> fallbackCodepage | Some s \<Rightarrow> s)"
    by (subst parseCollation_codepage) (simp only: Let_def sid lc u)
  then show ?thesis
    by (simp add: table_get_def fallbackCodepage_def z split: option.split)
qed

section \<open>Properties of the bulk-load handle\<close>

lemma step_not_configuring: "phase h \<noteq> configuring \<Longrightarrow> phase (step h e) \<noteq> configuring"
  by (cases e) simp_all

lemma steps_not_configuring:
  "phase h \<noteq> configuring \<Longrightarrow> phase (foldl step h evs) \<noteq> configuring"
  by (induction evs arbitrary: h) (simp_all add: step_not_configuring)

lemma execBulkLoad_not_configuring: "phase (execBulkLoad h rows) \<noteq> configuring"
  by (simp add: execBulkLoad_def)

text \<open>
  Claim C3. Once \<open>execBulkLoad\<close> was called on a handle, with a synchronous or an
  asynchronous row source, \<open>addColumn\<close> fails with exactly the message
  \<open>Columns cannot be added to bulk insert after execution has started.\<close>, whatever
  happened to the handle before and whatever has happened since.
\<close>

theorem addColumn_after_execBulkLoad:
  "addColumn (foldl step (execBulkLoad h (SyncRows rows)) evs) colName colType opts
     = Inl (Error ''Columns cannot be added to bulk insert after execution has started.'')
   \<and> addColumn (foldl step (execBulkLoad h (AsyncRows rows)) evs) colName colType opts
     = Inl (Error ''Columns cannot be added to bulk insert after execution has started.'')"
  using steps_not_configuring [OF execBulkLoad_not_configuring, of h "SyncRows rows" evs]
    steps_not_configuring [OF execBulkLoad_not_configuring, of h "AsyncRows rows" evs]
  by (simp add: addColumn_def)

section \<open>Properties of the metadata decoder\<close>

lemma awaitData_append: "length d = n \<Longrightarrow> awaitData n k (d @ rest) = k d rest"
  by (simp add: awaitData_def)

lemma readUInt8_Cons: "readUInt8 k (b # rest) = k (unat b) rest"
  using awaitData_append [of "[b]" 1 "\<lambda>data. k (le_nat data)" rest]
  by (simp add: readUInt8_def)

lemma readUInt16LE_append: "length d = 2 \<Longrightarrow> readUInt16LE k (d @ rest) = k (le_nat d) rest"
  by (simp add: readUInt16LE_def awaitData_append)

lemma readUInt16LE_Cons: "readUInt16LE k (b0 # b1 # rest) = k (le_nat [b0, b1]) rest"
  using readUInt16LE_append [of "[b0, b1]" k rest] by simp

lemma readUInt32LE_append: "length d = 4 \<Longrightarrow> readUInt32LE k (d @ rest) = k (le_nat d) rest"
  by (simp add: readUInt32LE_def awaitData_append)

lemma readBuffer_5: "readBuffer 5 k (c0 # c1 # c2 # c3 # c4 # rest) = k [c0, c1, c2, c3, c4] rest"
  using awaitData_append [of "[c0, c1, c2, c3, c4]" 5 k rest] by (simp add: readBuffer_def)

lemma metadataParse_header:
  assumes "length hdr = (if js_lt (tdsVersion opts) ''7_2'' then 2 else 4)"
  shows "metadataParse L S T opts cb (hdr @ f0 # f1 # t # rest)
    = typeCallback L S T cb (le_nat hdr) (le_nat [f0, f1]) (unat t) rest"
proof (cases "js_lt (tdsVersion opts) ''7_2''")
  case True
  with assms have "length hdr = 2" by simp
  with True show ?thesis
    by (simp only: metadataParse_def if_True readUInt16LE_append readUInt16LE_Cons readUInt8_Cons)
next
  case False
  with assms have "length hdr = 4" by simp
  with False show ?thesis
    by (simp only: metadataParse_def if_False readUInt32LE_append readUInt16LE_Cons readUInt8_Cons)
qed

lemma typeCallback_VarChar:
  assumes "T tn = Some ty" "name ty \<in> {''VarChar'', ''Char'', ''NVarChar'', ''NChar''}"
  shows "typeCallback L S T cb ut fl tn (l0 # l1 # c0 # c1 # c2 # c3 # c4 # rest)
    = cb \<lparr> userType = ut, flags = fl, type = ty,
           collation = Some (parseCollation L S [c0, c1, c2, c3, c4]),
           precision = None, scale = None, dataLength = Some (le_nat [l0, l1]),
           schema = None, udtInfo = None \<rparr> rest"
  using assms(2)
  by (auto simp add: typeCallback_def assms(1) readUInt16LE_Cons readCollation_def readBuffer_5
      simp del: le_nat.simps)

lemma typeCallback_NumericN:
  assumes "T tn = Some ty" "name ty \<in> {''NumericN'', ''DecimalN''}"
  shows "typeCallback L S T cb ut fl tn (d # p # s # rest)
    = cb \<lparr> userType = ut, flags = fl, type = ty, collation = None,
           precision = Some (unat p), scale = Some (unat s), dataLength = Some (unat d),
           schema = None, udtInfo = None \<rparr> rest"
  using assms(2)
  by (auto simp add: typeCallback_def assms(1) readUInt8_Cons)

text \<open>
  Claim C4. For a column whose type resolves to \<open>VarChar\<close>, \<open>Char\<close>, \<open>NVarChar\<close> or
  \<open>NChar\<close>, \<open>metadataParse\<close> reads a little-endian u16 \<open>dataLength\<close> and then five bytes
  of collation after the header, and calls the callback with that \<open>dataLength\<close>, the
  decoded collation, and \<open>precision\<close> and \<open>scale\<close> undefined. For \<open>NumericN\<close> or
  \<open>DecimalN\<close> it reads a u8 \<open>dataLength\<close>, a u8 \<open>precision\<close> and a u8 \<open>scale\<close>, and calls
  the callback with these three and \<open>collation\<close> undefined.
\<close>

theorem metadataParse_VarChar_NumericN:
  assumes "length hdr = (if js_lt (tdsVersion opts) ''7_2'' then 2 else 4)"
    and "T (unat t) = Some ty"
  shows "(name ty \<in> {''VarChar'', ''Char'', ''NVarChar'', ''NChar''} \<longrightarrow>
          metadataParse L S T opts cb
            (hdr @ f0 # f1 # t # l0 # l1 # c0 # c1 # c2 # c3 # c4 # rest)
          = cb \<lparr> userType = le_nat hdr, flags = le_nat [f0, f1], type = ty,
                 collation = Some (parseCollation L S [c0, c1, c2, c3, c4]),
                 precision = None, scale = None, dataLength = Some (le_nat [l0, l1]),
                 schema = None, udtInfo = None \<rparr> rest)
       \<and> (name ty \<in> {''NumericN'', ''DecimalN''} \<longrightarrow>
          metadataParse L S T opts cb (hdr @ f0 # f1 # t # d # p # s # rest)
          = cb \<lparr> userType = le_nat hdr, flags = le_nat [f0, f1], type = ty,
                 collation = None, precision = Some (unat p), scale = Some (unat s),
                 dataLength = Some (unat d), schema = None, udtInfo = None \<rparr> rest)"
proof (intro conjI impI)
  assume n: "name ty \<in> {''VarChar'', ''Char'', ''NVarChar'', ''NChar''}"
  show "metadataParse L S T opts cb
            (hdr @ f0 # f1 # t # l0 # l1 # c0 # c1 # c2 # c3 # c4 # rest)
          = cb \<lparr> userType = le_nat hdr, flags = le_nat [f0, f1], type = ty,
                 collation = Some (parseCollation L S [c0, c1, c2, c3, c4]),
                 precision = None, scale = None, dataLength = Some (le_nat [l0, l1]),
                 schema = None, udtInfo = None \<rparr> rest"
    by (simp only: metadataParse_header [OF assms(1)]
        typeCallback_VarChar [where T = T, OF assms(2) n])
next
  assume n: "name ty \<in> {''NumericN'', ''DecimalN''}"
  show "metadataParse L S T opts cb (hdr @ f0 # f1 # t # d # p # s # rest)
          = cb \<lparr> userType = le_nat hdr, flags = le_nat [f0, f1], type = ty,
                 collation = None, precision = Some (unat p), scale = Some (unat s),
                 dataLength = Some (unat d), schema = None, udtInfo = None \<rparr> rest"
    by (simp only: metadataParse_header [OF assms(1)]
        typeCallback_NumericN [where T = T, OF assms(2) n])
qed

theorem metadataParse_VarChar_NumericN_witness:
  "metadataParse Map.empty Map.empty TYPE_sample options_sample deliver
     ([2, 0, 0, 0] @ 3 # 0 # 0xA7 # 3 # 0 # 0x09 # 0x04 # 0x50 # 0x78 # 0x9A # [4, 0x6E])
    = Delivered (\<lparr> userType = 2, flags = 3,
        type = \<lparr> id' = 0xA7, type' = ''BIGVARCHR'', name = ''VarChar'' \<rparr>,
        collation = Some (parseCollation Map.empty Map.empty [0x09, 0x04, 0x50, 0x78, 0x9A]),
        precision = None, scale = None, dataLength = Some 3, schema = None,
        udtInfo = None \<rparr>, [4, 0x6E])
   \<and> metadataParse Map.empty Map.empty TYPE_sample options_sample deliver
     ([2, 0, 0, 0] @ 3 # 0 # 0x6C # 9 # 18 # 4 # [4, 0x6E])
    = Delivered (\<lparr> userType = 2, flags = 3,
        type = \<lparr> id' = 0x6C, type' = ''NUMERICN'', name = ''NumericN'' \<rparr>,
        collation = None, precision = Some 18, scale = Some 4, dataLength = Some 9,
        schema = None, udtInfo = None \<rparr>, [4, 0x6E])"
proof -
  have len: "length [2, 0, 0, 0 :: byte] = (if js_lt (tdsVersion options_sample) ''7_2'' then 2 else 4)"
    by (simp add: options_sample_def)
  have t1: "TYPE_sample (unat (0xA7 :: byte))
      = Some \<lparr> id' = 0xA7, type' = ''BIGVARCHR'', name = ''VarChar'' \<rparr>"
    by (simp add: TYPE_sample_def)
  have t2: "TYPE_sample (unat (0x6C :: byte))
      = Some \<lparr> id' = 0x6C, type' = ''NUMERICN'', name = ''NumericN'' \<rparr>"
    by (simp add: TYPE_sample_def)
  show ?thesis
    using metadataParse_VarChar_NumericN [where T = TYPE_sample and t = "0xA7"
          and L = Map.empty and S = Map.empty and cb = deliver and ?f0.0 = 3 and ?f1.0 = 0
          and ?l0.0 = 3 and ?l1.0 = 0 and ?c0.0 = "0x09" and ?c1.0 = "0x04" and ?c2.0 = "0x50"
          and ?c3.0 = "0x78" and ?c4.0 = "0x9A" and rest = "[4, 0x6E]", OF len t1]
      metadataParse_VarChar_NumericN [where T = TYPE_sample and t = "0x6C"
          and L = Map.empty and S = Map.empty and cb = deliver and ?f0.0 = 3 and ?f1.0 = 0
          and d = 9 and p = 18 and s = 4 and rest = "[4, 0x6E]", OF len t2]
    by (simp add: deliver_def)
qed

lemma string_lt_iff_lexord:
  "string_lt a b \<longleftrightarrow> (a, b) \<in> lexord {(c, d). (of_char c :: nat) < of_char d}"
  by (induction a b rule: string_lt.induct) auto

lemma js_lt_iff_lexord:
  "js_lt v b \<longleftrightarrow> (\<exists>a. v = Some a \<and> (a, b) \<in> lexord {(c, d). (of_char c :: nat) < of_char d})"
  by (cases v) (simp_all add: string_lt_iff_lexord)

lemma delivered_sat_awaitData:
  "(\<And>d p'. delivered_sat Q (k d p')) \<Longrightarrow> delivered_sat Q (awaitData n k p)"
  by (simp add: awaitData_def delivered_sat_def)

lemma delivered_sat_readers:
  "(\<And>v p'. delivered_sat Q (kn v p')) \<Longrightarrow> delivered_sat Q (readUInt8 kn p)"
  "(\<And>v p'. delivered_sat Q (kn v p')) \<Longrightarrow> delivered_sat Q (readUInt16LE kn p)"
  "(\<And>v p'. delivered_sat Q (kn v p')) \<Longrightarrow> delivered_sat Q (readUInt32LE kn p)"
  "(\<And>s p'. delivered_sat Q (ks s p')) \<Longrightarrow> delivered_sat Q (readBVarChar ks p)"
  "(\<And>s p'. delivered_sat Q (ks s p')) \<Longrightarrow> delivered_sat Q (readUsVarChar ks p)"
  "(\<And>c p'. delivered_sat Q (kc c p')) \<Longrightarrow> delivered_sat Q (readCollation L S kc p)"
  by (simp_all add: readUInt8_def readUInt16LE_def readUInt32LE_def readBVarChar_def
      readUsVarChar_def readCollation_def readBuffer_def delivered_sat_awaitData)

lemma delivered_sat_readSchema:
  "(\<And>s p'. delivered_sat Q (k s p')) \<Longrightarrow> delivered_sat Q (readSchema k p)"
  unfolding readSchema_def
  by (intro delivered_sat_readers) (simp add: delivered_sat_readers)

lemma delivered_sat_readUDTInfo:
  "(\<And>s p'. delivered_sat Q (k s p')) \<Longrightarrow> delivered_sat Q (readUDTInfo k p)"
  unfolding readUDTInfo_def
  by (intro delivered_sat_readers) 

lemma delivered_sat_deliver: "Q md \<Longrightarrow> delivered_sat Q (deliver md p)"
  by (simp add: deliver_def delivered_sat_def)

lemma typeCallback_passes:
  "delivered_sat (\<lambda>md. userType md = ut \<and> Metadata.flags md = fl \<and> T tn = Some (type md))
     (typeCallback L S T deliver ut fl tn p)"
proof (cases "T tn")
  case None
  then show ?thesis by (simp add: typeCallback_def delivered_sat_def)
next
  case (Some ty)
  then show ?thesis
    unfolding typeCallback_def
    by (simp del: set_simps add: delivered_sat_readers delivered_sat_readSchema
        delivered_sat_readUDTInfo delivered_sat_deliver)
      (simp add: delivered_sat_def)
qed

text \<open>
  Claim C6. For every column, \<open>metadataParse\<close> reads \<open>userType\<close> as a little-endian u16
  when the connection's \<open>tdsVersion\<close> string is before \<open>7_2\<close> in the lexicographic order
  of the character codes, and as a little-endian u32 otherwise (also when there is no
  \<open>tdsVersion\<close>); then \<open>flags\<close> as a little-endian u16 and the type id as a u8, in that
  order: these three values are what the rest of the decoding works with, and a record
  that is delivered carries this \<open>userType\<close>, these \<open>flags\<close> and the type that the id
  resolves to.
\<close>

theorem metadataParse_reads_header:
  assumes "length hdr =
      (if (\<exists>v. tdsVersion opts = Some v
               \<and> (v, ''7_2'') \<in> lexord {(c, d). (of_char c :: nat) < of_char d})
       then 2 else 4)"
  shows "metadataParse L S T opts cb (hdr @ f0 # f1 # t # rest)
           = typeCallback L S T cb (le_nat hdr) (le_nat [f0, f1]) (unat t) rest
       \<and> (\<forall>md rest'. metadataParse L S T opts deliver (hdr @ f0 # f1 # t # rest)
                         = Delivered (md, rest')
            \<longrightarrow> userType md = le_nat hdr \<and> Metadata.flags md = le_nat [f0, f1]
                \<and> T (unat t) = Some (type md))"
proof -
  have len: "length hdr = (if js_lt (tdsVersion opts) ''7_2'' then 2 else 4)"
    using assms by (simp only: js_lt_iff_lexord)
  have "delivered_sat (\<lambda>md. userType md = le_nat hdr \<and> Metadata.flags md = le_nat [f0, f1]
          \<and> T (unat t) = Some (type md))
      (typeCallback L S T deliver (le_nat hdr) (le_nat [f0, f1]) (unat t) rest)"
    by (rule typeCallback_passes)
  then show ?thesis
    unfolding metadataParse_header [OF len] by (auto simp add: delivered_sat_def)
qed

theorem metadataParse_reads_header_witness:
  "metadataParse Map.empty Map.empty TYPE_sample \<lparr> tdsVersion = Some ''7_1'', useUTC = True \<rparr>
      deliver ([2, 1] @ 3 # 0 # 0x38 # [4, 0x6E])
    = Delivered (\<lparr> userType = 258, flags = 3,
        type = \<lparr> id' = 0x38, type' = ''INT4'', name = ''Int'' \<rparr>,
        collation = None, precision = None, scale = None, dataLength = None, schema = None,
        udtInfo = None \<rparr>, [4, 0x6E])
   \<and> metadataParse Map.empty Map.empty TYPE_sample options_sample
      deliver ([2, 1, 0, 0] @ 3 # 0 # 0x38 # [4, 0x6E])
    = Delivered (\<lparr> userType = 258, flags = 3,
        type = \<lparr> id' = 0x38, type' = ''INT4'', name = ''Int'' \<rparr>,
        collation = None, precision = None, scale = None, dataLength = None, schema = None,
        udtInfo = None \<rparr>, [4, 0x6E])"
proof -
  have old: "length [2, 1 :: byte] =
      (if (\<exists>v. tdsVersion \<lparr> tdsVersion = Some ''7_1'', useUTC = True \<rparr> = Some v
               \<and> (v, ''7_2'') \<in> lexord {(c, d). (of_char c :: nat) < of_char d})
       then 2 else 4)"
    by simp
  have new: "length [2, 1, 0, 0 :: byte] =
      (if (\<exists>v. tdsVersion options_sample = Some v
               \<and> (v, ''7_2'') \<in> lexord {(c, d). (of_char c :: nat) < of_char d})
       then 2 else 4)"
    by (simp add: options_sample_def)
  have le: "le_nat [2, 1 :: byte] = 258" "le_nat [2, 1, 0, 0 :: byte] = 258"
    "le_nat [3, 0 :: byte] = 3"
    by simp_all
  have ty: "typeCallback Map.empty Map.empty TYPE_sample deliver 258 3 (unat (0x38 :: byte))
      [4, 0x6E]
    = Delivered (\<lparr> userType = 258, flags = 3,
        type = \<lparr> id' = 0x38, type' = ''INT4'', name = ''Int'' \<rparr>,
        collation = None, precision = None, scale = None, dataLength = None, schema = None,
        udtInfo = None \<rparr>, [4, 0x6E])"
    by (simp add: typeCallback_def TYPE_sample_def deliver_def)
  note a = metadataParse_reads_header [OF old, where L = Map.empty and S = Map.empty
          and T = TYPE_sample and cb = deliver and ?f0.0 = 3 and ?f1.0 = 0 and t = "0x38"
          and rest = "[4, 0x6E]", THEN conjunct1]
  note b = metadataParse_reads_header [OF new, where L = Map.empty and S = Map.empty
          and T = TYPE_sample and cb = deliver and ?f0.0 = 3 and ?f1.0 = 0 and t = "0x38"
          and rest = "[4, 0x6E]", THEN conjunct1]
  show ?thesis
    by (simp only: a b le ty simp_thms)
qed

lemma to_hex_digit: "n < 16 \<Longrightarrow> to_hex n = [hex_digit n]"
  by simp

lemma sprintf_02X_byte:
  assumes "n < 256"
  shows "sprintf_02X n = [hex_digit (n div 16), hex_digit (n mod 16)]"
proof (cases "n < 16")
  case True
  then have "to_hex n = [hex_digit n]" by (rule to_hex_digit)
  moreover have "hex_digit 0 = CHR ''0''" by (simp add: hex_digit_def)
  ultimately show ?thesis using True by (simp add: sprintf_02X_def)
next
  case False
  have "n div 16 < 16" using assms by simp
  then have "to_hex (n div 16) = [hex_digit (n div 16)]" by (rule to_hex_digit)
  then have "to_hex n = [hex_digit (n div 16), hex_digit (n mod 16)]"
    using False by (subst to_hex.simps) simp
  then show ?thesis by (simp add: sprintf_02X_def)
qed

lemma delivers_from_mono: "delivers_from a k \<Longrightarrow> a \<le> b \<Longrightarrow> delivers_from b k"
  by (auto simp add: delivers_from_def)

lemma delivers_from_awaitData:
  assumes "\<And>d. length d = m \<Longrightarrow> delivers_from n (k d)"
  shows "delivers_from (m + n) (awaitData m k)"
  using assms by (auto simp add: delivers_from_def awaitData_def)

lemma never_raises_awaitData:
  assumes "\<And>d. never_raises (k d)"
  shows "never_raises (awaitData m k)"
  using assms by (auto simp add: never_raises_def awaitData_def)

lemma le_nat_bound: "le_nat d < 256 ^ length d"
proof (induction d)
  case Nil
  show ?case by simp
next
  case (Cons b d)
  have "unat b < 256" using unsigned_less [of b, where ?'a = nat] by simp
  moreover have "le_nat d < 256 ^ length d" by (rule Cons.IH)
  ultimately have "unat b + 256 * le_nat d < 256 * 256 ^ length d" by linarith
  then show ?case by simp
qed

lemma delivers_from_readUInt8:
  assumes "\<And>v. v < 256 \<Longrightarrow> delivers_from n (k v)"
  shows "delivers_from (1 + n) (readUInt8 k)"
  unfolding readUInt8_def
proof (rule delivers_from_awaitData)
  fix d :: Buffer assume "length d = 1"
  then have "le_nat d < 256" using le_nat_bound [of d] by simp
  then show "delivers_from n (k (le_nat d))" by (rule assms)
qed

lemma delivers_from_readUInt16LE:
  assumes "\<And>v. v < 65536 \<Longrightarrow> delivers_from n (k v)"
  shows "delivers_from (2 + n) (readUInt16LE k)"
  unfolding readUInt16LE_def
proof (rule delivers_from_awaitData)
  fix d :: Buffer assume "length d = 2"
  then have "le_nat d < 65536" using le_nat_bound [of d] by simp
  then show "delivers_from n (k (le_nat d))" by (rule assms)
qed

lemma delivers_from_readUInt32LE:
  assumes "\<And>v. delivers_from n (k v)"
  shows "delivers_from (4 + n) (readUInt32LE k)"
  unfolding readUInt32LE_def by (rule delivers_from_awaitData) (rule assms)

lemma delivers_from_readBVarChar:
  assumes "\<And>s. delivers_from n (k s)"
  shows "delivers_from (511 + n) (readBVarChar k)"
proof -
  have "delivers_from (1 + (510 + n)) (readBVarChar k)"
    unfolding readBVarChar_def
  proof (rule delivers_from_readUInt8)
    fix v :: nat assume "v < 256"
    then have "2 * v + n \<le> 510 + n" by simp
    moreover have "delivers_from (2 * v + n) (awaitData (2 * v) (\<lambda>data. k (ucs2 data)))"
      by (rule delivers_from_awaitData) (rule assms)
    ultimately show "delivers_from (510 + n) (awaitData (2 * v) (\<lambda>data. k (ucs2 data)))"
      by (rule delivers_from_mono [rotated])
  qed
  then show ?thesis by simp
qed

lemma delivers_from_readUsVarChar:
  assumes "\<And>s. delivers_from n (k s)"
  shows "delivers_from (131072 + n) (readUsVarChar k)"
proof -
  have "delivers_from (2 + (131070 + n)) (readUsVarChar k)"
    unfolding readUsVarChar_def
  proof (rule delivers_from_readUInt16LE)
    fix v :: nat assume "v < 65536"
    then have "2 * v + n \<le> 131070 + n" by simp
    moreover have "delivers_from (2 * v + n) (awaitData (2 * v) (\<lambda>data. k (ucs2 data)))"
      by (rule delivers_from_awaitData) (rule assms)
    ultimately show "delivers_from (131070 + n) (awaitData (2 * v) (\<lambda>data. k (ucs2 data)))"
      by (rule delivers_from_mono [rotated])
  qed
  then show ?thesis by simp
qed

lemma delivers_from_readCollation:
  assumes "\<And>c. delivers_from n (k c)"
  shows "delivers_from (5 + n) (readCollation L S k)"
  unfolding readCollation_def readBuffer_def by (rule delivers_from_awaitData) (rule assms)

lemma delivers_from_readSchema:
  assumes "\<And>s. delivers_from 0 (k s)"
  shows "delivers_from 132095 (readSchema k)"
proof -
  have full: "delivers_from (511 + (511 + (131072 + 0)))
      (readBVarChar (\<lambda>dbname. readBVarChar (\<lambda>owningSchema. readUsVarChar (\<lambda>xmlSchemaCollection.
          k (Some \<lparr> XmlSchema.dbname = dbname, XmlSchema.owningSchema = owningSchema,
                    xmlSchemaCollection = xmlSchemaCollection \<rparr>)))))"
    by (intro delivers_from_readBVarChar delivers_from_readUsVarChar assms)
  have "delivers_from (1 + 132094) (readSchema k)"
    unfolding readSchema_def
  proof (rule delivers_from_readUInt8)
    fix v :: nat
    show "delivers_from 132094
        (if v = 0x01 then
          readBVarChar (\<lambda>dbname. readBVarChar (\<lambda>owningSchema. readUsVarChar (\<lambda>xmlSchemaCollection.
            k (Some \<lparr> XmlSchema.dbname = dbname, XmlSchema.owningSchema = owningSchema,
                      xmlSchemaCollection = xmlSchemaCollection \<rparr>))))
         else k None)"
      using full delivers_from_mono [OF assms [of None], of 132094] by simp
  qed
  then show ?thesis by simp
qed

lemma delivers_from_readUDTInfo:
  assumes "\<And>s. delivers_from 0 (k s)"
  shows "delivers_from 132607 (readUDTInfo k)"
proof -
  have "delivers_from (2 + (511 + (511 + (511 + (131072 + 0))))) (readUDTInfo k)"
    unfolding readUDTInfo_def
    by (intro delivers_from_readUInt16LE delivers_from_readBVarChar delivers_from_readUsVarChar
        assms)
  then show ?thesis by simp
qed

lemma never_raises_readUInt8: "(\<And>v. never_raises (kn v)) \<Longrightarrow> never_raises (readUInt8 kn)"
  unfolding readUInt8_def by (rule never_raises_awaitData)

lemma never_raises_readUInt16LE: "(\<And>v. never_raises (kn v)) \<Longrightarrow> never_raises (readUInt16LE kn)"
  unfolding readUInt16LE_def by (rule never_raises_awaitData)

lemma never_raises_readUInt32LE: "(\<And>v. never_raises (kn v)) \<Longrightarrow> never_raises (readUInt32LE kn)"
  unfolding readUInt32LE_def by (rule never_raises_awaitData)

lemma never_raises_readBVarChar: "(\<And>s. never_raises (ks s)) \<Longrightarrow> never_raises (readBVarChar ks)"
  unfolding readBVarChar_def by (intro never_raises_readUInt8 never_raises_awaitData)

lemma never_raises_readUsVarChar: "(\<And>s. never_raises (ks s)) \<Longrightarrow> never_raises (readUsVarChar ks)"
  unfolding readUsVarChar_def by (intro never_raises_readUInt16LE never_raises_awaitData)

lemma never_raises_readCollation:
  "(\<And>c. never_raises (kc c)) \<Longrightarrow> never_raises (readCollation L S kc)"
  unfolding readCollation_def readBuffer_def by (rule never_raises_awaitData)

lemmas never_raises_readers = never_raises_readUInt8 never_raises_readUInt16LE
  never_raises_readUInt32LE never_raises_readBVarChar never_raises_readUsVarChar
  never_raises_readCollation

lemma never_raises_readSchema:
  assumes "\<And>s. never_raises (k s)"
  shows "never_raises (readSchema k)"
  unfolding readSchema_def
proof (rule never_raises_readUInt8)
  fix v :: nat
  show "never_raises
        (if v = 0x01 then
          readBVarChar (\<lambda>dbname. readBVarChar (\<lambda>owningSchema. readUsVarChar (\<lambda>xmlSchemaCollection.
            k (Some \<lparr> XmlSchema.dbname = dbname, XmlSchema.owningSchema = owningSchema,
                      xmlSchemaCollection = xmlSchemaCollection \<rparr>))))
         else k None)"
    using assms by (simp add: never_raises_readBVarChar never_raises_readUsVarChar)
qed

lemma never_raises_readUDTInfo:
  "(\<And>s. never_raises (k s)) \<Longrightarrow> never_raises (readUDTInfo k)"
  unfolding readUDTInfo_def by (intro never_raises_readers)

lemma never_raises_deliver: "never_raises (deliver md)"
  by (simp add: never_raises_def deliver_def)

lemma delivers_from_deliver: "delivers_from 0 (deliver md)"
  by (simp add: delivers_from_def deliver_def)

lemma delivers_from_if:
  "(c \<Longrightarrow> delivers_from n a) \<Longrightarrow> (\<not> c \<Longrightarrow> delivers_from n b)
    \<Longrightarrow> delivers_from n (if c then a else b)"
  by simp

lemma never_raises_if:
  "(c \<Longrightarrow> never_raises a) \<Longrightarrow> (\<not> c \<Longrightarrow> never_raises b) \<Longrightarrow> never_raises (if c then a else b)"
  by simp

lemma delivers_within_readUInt8:
  "(\<And>v. delivers_from n (k v)) \<Longrightarrow> 1 + n \<le> N \<Longrightarrow> delivers_from N (readUInt8 k)"
  by (rule delivers_from_mono [OF delivers_from_readUInt8])

lemma delivers_within_readUInt16LE:
  "(\<And>v. delivers_from n (k v)) \<Longrightarrow> 2 + n \<le> N \<Longrightarrow> delivers_from N (readUInt16LE k)"
  by (rule delivers_from_mono [OF delivers_from_readUInt16LE])

lemma delivers_within_readUInt32LE:
  "(\<And>v. delivers_from n (k v)) \<Longrightarrow> 4 + n \<le> N \<Longrightarrow> delivers_from N (readUInt32LE k)"
  by (rule delivers_from_mono [OF delivers_from_readUInt32LE])

lemma delivers_within_readCollation:
  "(\<And>c. delivers_from n (k c)) \<Longrightarrow> 5 + n \<le> N \<Longrightarrow> delivers_from N (readCollation L S k)"
  by (rule delivers_from_mono [OF delivers_from_readCollation])

lemma delivers_within_readSchema:
  "(\<And>s. delivers_from 0 (k s)) \<Longrightarrow> 132095 \<le> N \<Longrightarrow> delivers_from N (readSchema k)"
  by (rule delivers_from_mono [OF delivers_from_readSchema])

lemma delivers_within_readUDTInfo:
  "(\<And>s. delivers_from 0 (k s)) \<Longrightarrow> 132607 \<le> N \<Longrightarrow> delivers_from N (readUDTInfo k)"
  by (rule delivers_from_mono [OF delivers_from_readUDTInfo])

lemma delivers_within_deliver: "delivers_from N (deliver md)"
  by (simp add: delivers_from_def deliver_def)

lemma typeCallback_delivers:
  assumes "T tn = Some ty" "name ty \<in> set switch_names"
  shows "delivers_from 132607 (typeCallback L S T deliver ut fl tn)"
  unfolding typeCallback_def
  apply (simp only: assms(1) option.case)
  apply (intro delivers_from_if delivers_within_deliver)
            apply (rule delivers_within_readUInt8, rule delivers_from_deliver, simp)
           apply (rule delivers_within_readUInt32LE, rule delivers_from_deliver, simp)
          apply (rule delivers_within_readUInt16LE, rule delivers_within_readCollation,
      rule delivers_from_deliver, rule order_refl, simp)
         apply (rule delivers_within_readUInt32LE, rule delivers_within_readCollation,
      rule delivers_from_deliver, rule order_refl, simp)
        apply (rule delivers_within_readUInt16LE, rule delivers_from_deliver, simp)
       apply (rule delivers_within_readUInt32LE, rule delivers_from_deliver, simp)
      apply (rule delivers_within_readSchema, rule delivers_from_deliver, simp)
     apply (rule delivers_within_readUInt8, rule delivers_from_deliver, simp)
    apply (rule delivers_within_readUInt8, rule delivers_within_readUInt8,
      rule delivers_within_readUInt8, rule delivers_from_deliver, rule order_refl,
      rule order_refl, simp)
   apply (rule delivers_within_readUDTInfo, rule delivers_from_deliver, simp)
  using assms(2) apply (simp add: switch_names_def)
  done

lemma never_raises_typeCallback:
  assumes "T tn = Some ty" "name ty \<in> set switch_names"
  shows "never_raises (typeCallback L S T deliver ut fl tn)"
  unfolding typeCallback_def
  apply (simp only: assms(1) option.case)
  apply (intro never_raises_if never_raises_readers never_raises_readSchema
      never_raises_readUDTInfo never_raises_deliver)
  using assms(2) apply (simp add: switch_names_def)
  done

lemma typeCallback_unknown_id:
  "T tn = None \<Longrightarrow> typeCallback L S T cb ut fl tn p
    = Raised (Error (''Unrecognised data type 0x'' @ sprintf_02X tn))"
  by (simp add: typeCallback_def)

lemma typeCallback_unknown_name:
  "T tn = Some ty \<Longrightarrow> name ty \<notin> set switch_names \<Longrightarrow> typeCallback L S T cb ut fl tn p
    = Raised (Error (''Unrecognised type '' @ name ty))"
  by (simp add: typeCallback_def switch_names_def)

lemma metadataParse_short:
  assumes "length inp < (if js_lt (tdsVersion opts) ''7_2'' then 2 else 4) + 3"
  shows "metadataParse L S T opts cb inp = Suspended"
proof (cases "js_lt (tdsVersion opts) ''7_2''")
  case True
  with assms have "length inp < 5" by simp
  with True show ?thesis
    by (auto simp add: metadataParse_def readUInt16LE_def readUInt8_def awaitData_def)
next
  case False
  with assms have "length inp < 7" by simp
  with False show ?thesis
    by (auto simp add: metadataParse_def readUInt16LE_def readUInt32LE_def readUInt8_def
        awaitData_def)
qed

lemma readUInt32LE_Cons:
  "readUInt32LE k (d0 # d1 # d2 # d3 # rest) = k (le_nat [d0, d1, d2, d3]) rest"
  using readUInt32LE_append [of "[d0, d1, d2, d3]" k rest] by simp

lemma readBVarChar_append:
  "length s = 2 * unat c \<Longrightarrow> readBVarChar k (c # s @ rest) = k (ucs2 s) rest"
  by (simp add: readBVarChar_def readUInt8_Cons awaitData_append)

lemma readUsVarChar_append:
  "length s = 2 * le_nat [l0, l1] \<Longrightarrow> readUsVarChar k (l0 # l1 # s @ rest) = k (ucs2 s) rest"
  by (simp only: readUsVarChar_def readUInt16LE_Cons awaitData_append)

lemma typeCallback_fixed:
  assumes "T tn = Some ty"
    "name ty \<in> {''Null'', ''TinyInt'', ''SmallInt'', ''Int'', ''BigInt'', ''Real'', ''Float'',
       ''SmallMoney'', ''Money'', ''Bit'', ''SmallDateTime'', ''DateTime'', ''Date''}"
  shows "typeCallback L S T cb ut fl tn rest
    = cb \<lparr> userType = ut, flags = fl, type = ty, collation = None, precision = None,
           scale = None, dataLength = None, schema = None, udtInfo = None \<rparr> rest"
  using assms(2) by (auto simp add: typeCallback_def assms(1))

lemma typeCallback_u8_length:
  assumes "T tn = Some ty"
    "name ty \<in> {''IntN'', ''FloatN'', ''MoneyN'', ''BitN'', ''UniqueIdentifier'', ''DateTimeN''}"
  shows "typeCallback L S T cb ut fl tn (d # rest)
    = cb \<lparr> userType = ut, flags = fl, type = ty, collation = None, precision = None,
           scale = None, dataLength = Some (unat d), schema = None, udtInfo = None \<rparr> rest"
  using assms(2) by (auto simp add: typeCallback_def assms(1) readUInt8_Cons)

lemma typeCallback_u32_length:
  assumes "T tn = Some ty" "name ty \<in> {''Variant'', ''Image''}"
  shows "typeCallback L S T cb ut fl tn (d0 # d1 # d2 # d3 # rest)
    = cb \<lparr> userType = ut, flags = fl, type = ty, collation = None, precision = None,
           scale = None, dataLength = Some (le_nat [d0, d1, d2, d3]), schema = None,
           udtInfo = None \<rparr> rest"
  using assms(2)
  by (auto simp add: typeCallback_def assms(1) readUInt32LE_Cons simp del: le_nat.simps)

lemma typeCallback_Text:
  assumes "T tn = Some ty" "name ty \<in> {''Text'', ''NText''}"
  shows "typeCallback L S T cb ut fl tn (d0 # d1 # d2 # d3 # c0 # c1 # c2 # c3 # c4 # rest)
    = cb \<lparr> userType = ut, flags = fl, type = ty,
           collation = Some (parseCollation L S [c0, c1, c2, c3, c4]),
           precision = None, scale = None, dataLength = Some (le_nat [d0, d1, d2, d3]),
           schema = None, udtInfo = None \<rparr> rest"
  using assms(2)
  by (auto simp add: typeCallback_def assms(1) readUInt32LE_Cons readCollation_def readBuffer_5
      simp del: le_nat.simps)

lemma typeCallback_VarBinary:
  assumes "T tn = Some ty" "name ty \<in> {''VarBinary'', ''Binary''}"
  shows "typeCallback L S T cb ut fl tn (l0 # l1 # rest)
    = cb \<lparr> userType = ut, flags = fl, type = ty, collation = None, precision = None,
           scale = None, dataLength = Some (le_nat [l0, l1]), schema = None,
           udtInfo = None \<rparr> rest"
  using assms(2)
  by (auto simp add: typeCallback_def assms(1) readUInt16LE_Cons simp del: le_nat.simps)

lemma typeCallback_Time:
  assumes "T tn = Some ty" "name ty \<in> {''Time'', ''DateTime2'', ''DateTimeOffset''}"
  shows "typeCallback L S T cb ut fl tn (s # rest)
    = cb \<lparr> userType = ut, flags = fl, type = ty, collation = None, precision = None,
           scale = Some (unat s), dataLength = None, schema = None, udtInfo = None \<rparr> rest"
  using assms(2) by (auto simp add: typeCallback_def assms(1) readUInt8_Cons)

lemma readSchema_absent:
  "unat p \<noteq> 1 \<Longrightarrow> readSchema k (p # rest) = k None rest"
  by (simp add: readSchema_def readUInt8_Cons)

lemma readSchema_present:
  assumes "length s1 = 2 * unat c1" "length s2 = 2 * unat c2" "length s3 = 2 * le_nat [l0, l1]"
  shows "readSchema k (1 # c1 # s1 @ c2 # s2 @ l0 # l1 # s3 @ rest)
    = k (Some \<lparr> XmlSchema.dbname = ucs2 s1, XmlSchema.owningSchema = ucs2 s2,
                 xmlSchemaCollection = ucs2 s3 \<rparr>) rest"
  by (simp only: readSchema_def readUInt8_Cons unsigned_1 if_True refl
      readBVarChar_append [OF assms(1)] readBVarChar_append [OF assms(2)]
      readUsVarChar_append [OF assms(3)])

lemma readUDTInfo_complete:
  assumes "length s1 = 2 * unat c1" "length s2 = 2 * unat c2" "length s3 = 2 * unat c3"
    "length s4 = 2 * le_nat [l0, l1]"
  shows "readUDTInfo k (m0 # m1 # c1 # s1 @ c2 # s2 @ c3 # s3 @ l0 # l1 # s4 @ rest)
    = k (Some \<lparr> maxByteSize = le_nat [m0, m1], dbname = ucs2 s1, owningSchema = ucs2 s2,
                 typeName = ucs2 s3, assemblyName = ucs2 s4 \<rparr>) rest"
  by (simp only: readUDTInfo_def readUInt16LE_Cons
      readBVarChar_append [OF assms(1)] readBVarChar_append [OF assms(2)]
      readBVarChar_append [OF assms(3)] readUsVarChar_append [OF assms(4)])

lemma typeCallback_Xml:
  assumes "T tn = Some ty" "name ty = ''Xml''"
  shows "typeCallback L S T cb ut fl tn
    = readSchema (\<lambda>schema. cb \<lparr> userType = ut, flags = fl, type = ty, collation = None,
        precision = None, scale = None, dataLength = None, schema = schema,
        udtInfo = None \<rparr>)"
  by (simp add: typeCallback_def assms)

lemma typeCallback_UDT:
  assumes "T tn = Some ty" "name ty = ''UDT''"
  shows "typeCallback L S T cb ut fl tn
    = readUDTInfo (\<lambda>udtInfo. cb \<lparr> userType = ut, flags = fl, type = ty, collation = None,
        precision = None, scale = None, dataLength = None, schema = None,
        udtInfo = udtInfo \<rparr>)"
  by (simp add: typeCallback_def assms)

lemma metadataParse_fixed:
  assumes "length hdr = (if js_lt (tdsVersion opts) ''7_2'' then 2 else 4)"
    and "T (unat t) = Some ty"
    and "name ty \<in> {''Null'', ''TinyInt'', ''SmallInt'', ''Int'', ''BigInt'', ''Real'', ''Float'', ''SmallMoney'', ''Money'', ''Bit'', ''SmallDateTime'', ''DateTime'', ''Date''}"
  shows "metadataParse L S T opts cb (hdr @ f0 # f1 # t # rest)
      = cb \<lparr> userType = le_nat hdr, flags = le_nat [f0, f1], type = ty,
               collation = None,
               precision = None, scale = None, dataLength = None,
               schema = None, udtInfo = None \<rparr> rest"
  by (simp only: metadataParse_header [OF assms(1)]
      typeCallback_fixed [where T = T, OF assms(2) assms(3)])

lemma metadataParse_u8_length:
  assumes "length hdr = (if js_lt (tdsVersion opts) ''7_2'' then 2 else 4)"
    and "T (unat t) = Some ty"
    and "name ty \<in> {''IntN'', ''FloatN'', ''MoneyN'', ''BitN'', ''UniqueIdentifier'', ''DateTimeN''}"
  shows "metadataParse L S T opts cb (hdr @ f0 # f1 # t # d # rest)
      = cb \<lparr> userType = le_nat hdr, flags = le_nat [f0, f1], type = ty,
               collation = None,
               precision = None, scale = None, dataLength = Some (unat d),
               schema = None, udtInfo = None \<rparr> rest"
  by (simp only: metadataParse_header [OF assms(1)]
      typeCallback_u8_length [where T = T, OF assms(2) assms(3)])

lemma metadataParse_u32_length:
  assumes "length hdr = (if js_lt (tdsVersion opts) ''7_2'' then 2 else 4)"
    and "T (unat t) = Some ty"
    and "name ty \<in> {''Variant'', ''Image''}"
  shows "metadataParse L S T opts cb (hdr @ f0 # f1 # t # d0 # d1 # d2 # d3 # rest)
      = cb \<lparr> userType = le_nat hdr, flags = le_nat [f0, f1], type = ty,
               collation = None,
               precision = None, scale = None, dataLength = Some (le_nat [d0, d1, d2, d3]),
               schema = None, udtInfo = None \<rparr> rest"
  by (simp only: metadataParse_header [OF assms(1)]
      typeCallback_u32_length [where T = T, OF assms(2) assms(3)])

lemma metadataParse_VarChar:
  assumes "length hdr = (if js_lt (tdsVersion opts) ''7_2'' then 2 else 4)"
    and "T (unat t) = Some ty"
    and "name ty \<in> {''VarChar'', ''Char'', ''NVarChar'', ''NChar''}"
  shows "metadataParse L S T opts cb (hdr @ f0 # f1 # t # l0 # l1 # c0 # c1 # c2 # c3 # c4 # rest)
      = cb \<lparr> userType = le_nat hdr, flags = le_nat [f0, f1], type = ty,
               collation = Some (parseCollation L S [c0, c1, c2, c3, c4]),
               precision = None, scale = None, dataLength = Some (le_nat [l0, l1]),
               schema = None, udtInfo = None \<rparr> rest"
  by (simp only: metadataParse_header [OF assms(1)]
      typeCallback_VarChar [where T = T, OF assms(2) assms(3)])

lemma metadataParse_Text:
  assumes "length hdr = (if js_lt (tdsVersion opts) ''7_2'' then 2 else 4)"
    and "T (unat t) = Some ty"
    and "name ty \<in> {''Text'', ''NText''}"
  shows "metadataParse L S T opts cb (hdr @ f0 # f1 # t # d0 # d1 # d2 # d3 # c0 # c1 # c2 # c3 # c4 # rest)
      = cb \<lparr> userType = le_nat hdr, flags = le_nat [f0, f1], type = ty,
               collation = Some (parseCollation L S [c0, c1, c2, c3, c4]),
               precision = None, scale = None, dataLength = Some (le_nat [d0, d1, d2, d3]),
               schema = None, udtInfo = None \<rparr> rest"
  by (simp only: metadataParse_header [OF assms(1)]
      typeCallback_Text [where T = T, OF assms(2) assms(3)])

lemma metadataParse_VarBinary:
  assumes "length hdr = (if js_lt (tdsVersion opts) ''7_2'' then 2 else 4)"
    and "T (unat t) = Some ty"
    and "name ty \<in> {''VarBinary'', ''Binary''}"
  shows "metadataParse L S T opts cb (hdr @ f0 # f1 # t # l0 # l1 # rest)
      = cb \<lparr> userType = le_nat hdr, flags = le_nat [f0, f1], type = ty,
               collation = None,
               precision = None, scale = None, dataLength = Some (le_nat [l0, l1]),
               schema = None, udtInfo = None \<rparr> rest"
  by (simp only: metadataParse_header [OF assms(1)]
      typeCallback_VarBinary [where T = T, OF assms(2) assms(3)])

lemma metadataParse_Xml_absent:
  assumes "length hdr = (if js_lt (tdsVersion opts) ''7_2'' then 2 else 4)"
    and "T (unat t) = Some ty"
    and "name ty \<in> {''Xml''}"
    and "unat present \<noteq> 1"
  shows "metadataParse L S T opts cb (hdr @ f0 # f1 # t # present # rest)
      = cb \<lparr> userType = le_nat hdr, flags = le_nat [f0, f1], type = ty,
               collation = None,
               precision = None, scale = None, dataLength = None,
               schema = None, udtInfo = None \<rparr> rest"
  using assms(3)
  by (simp add: metadataParse_header [OF assms(1)] typeCallback_Xml [where T = T, OF assms(2)]
      readSchema_absent [OF assms(4)] del: le_nat.simps)

lemma metadataParse_Xml_present:
  assumes "length hdr = (if js_lt (tdsVersion opts) ''7_2'' then 2 else 4)"
    and "T (unat t) = Some ty"
    and "name ty \<in> {''Xml''}"
    and "length s1 = 2 * unat n1"
    and "length s2 = 2 * unat n2"
    and "length s3 = 2 * le_nat [l0, l1]"
  shows "metadataParse L S T opts cb (hdr @ f0 # f1 # t # 1 # n1 # s1 @ n2 # s2 @ l0 # l1 # s3 @ rest)
      = cb \<lparr> userType = le_nat hdr, flags = le_nat [f0, f1], type = ty,
               collation = None,
               precision = None, scale = None, dataLength = None,
               schema = Some \<lparr> XmlSchema.dbname = ucs2 s1, XmlSchema.owningSchema = ucs2 s2,
                                xmlSchemaCollection = ucs2 s3 \<rparr>, udtInfo = None \<rparr> rest"
  using assms(3)
  by (simp add: metadataParse_header [OF assms(1)] typeCallback_Xml [where T = T, OF assms(2)]
      readSchema_present [OF assms(4) assms(5) assms(6)] del: le_nat.simps)

lemma metadataParse_Time:
  assumes "length hdr = (if js_lt (tdsVersion opts) ''7_2'' then 2 else 4)"
    and "T (unat t) = Some ty"
    and "name ty \<in> {''Time'', ''DateTime2'', ''DateTimeOffset''}"
  shows "metadataParse L S T opts cb (hdr @ f0 # f1 # t # s # rest)
      = cb \<lparr> userType = le_nat hdr, flags = le_nat [f0, f1], type = ty,
               collation = None,
               precision = None, scale = Some (unat s), dataLength = None,
               schema = None, udtInfo = None \<rparr> rest"
  by (simp only: metadataParse_header [OF assms(1)]
      typeCallback_Time [where T = T, OF assms(2) assms(3)])

lemma metadataParse_NumericN:
  assumes "length hdr = (if js_lt (tdsVersion opts) ''7_2'' then 2 else 4)"
    and "T (unat t) = Some ty"
    and "name ty \<in> {''NumericN'', ''DecimalN''}"
  shows "metadataParse L S T opts cb (hdr @ f0 # f1 # t # d # p # s # rest)
      = cb \<lparr> userType = le_nat hdr, flags = le_nat [f0, f1], type = ty,
               collation = None,
               precision = Some (unat p), scale = Some (unat s), dataLength = Some (unat d),
               schema = None, udtInfo = None \<rparr> rest"
  by (simp only: metadataParse_header [OF assms(1)]
      typeCallback_NumericN [where T = T, OF assms(2) assms(3)])

lemma metadataParse_UDT:
  assumes "length hdr = (if js_lt (tdsVersion opts) ''7_2'' then 2 else 4)"
    and "T (unat t) = Some ty"
    and "name ty \<in> {''UDT''}"
    and "length s1 = 2 * unat n1"
    and "length s2 = 2 * unat n2"
    and "length s3 = 2 * unat n3"
    and "length s4 = 2 * le_nat [l0, l1]"
  shows "metadataParse L S T opts cb (hdr @ f0 # f1 # t # m0 # m1 # n1 # s1 @ n2 # s2 @ n3 # s3 @ l0 # l1 # s4 @ rest)
      = cb \<lparr> userType = le_nat hdr, flags = le_nat [f0, f1], type = ty,
               collation = None,
               precision = None, scale = None, dataLength = None,
               schema = None, udtInfo = Some \<lparr> maxByteSize = le_nat [m0, m1], dbname = ucs2 s1, owningSchema = ucs2 s2,
                                 typeName = ucs2 s3, assemblyName = ucs2 s4 \<rparr> \<rparr> rest"
  using assms(3)
  by (simp add: metadataParse_header [OF assms(1)] typeCallback_UDT [where T = T, OF assms(2)]
      readUDTInfo_complete [OF assms(4) assms(5) assms(6) assms(7)] del: le_nat.simps)

lemma metadataParse_unknown_id:
  assumes "length hdr = (if js_lt (tdsVersion opts) ''7_2'' then 2 else 4)"
    and none: "T (unat t) = None"
  shows "metadataParse L S T opts cb (hdr @ f0 # f1 # t # rest)
      = Raised (Error (''Unrecognised data type 0x''
                       @ [hex_digit (unat t div 16), hex_digit (unat t mod 16)]))"
proof -
  have "unat t < 256" using unsigned_less [of t, where ?'a = nat] by simp
  then show ?thesis
    by (simp only: metadataParse_header [OF assms(1)]
        typeCallback_unknown_id [where T = T, OF none] sprintf_02X_byte)
qed

lemma metadataParse_unknown_name:
  assumes "length hdr = (if js_lt (tdsVersion opts) ''7_2'' then 2 else 4)"
    and "T (unat t) = Some ty" and "name ty \<notin> set switch_names"
  shows "metadataParse L S T opts cb (hdr @ f0 # f1 # t # rest)
      = Raised (Error (''Unrecognised type '' @ name ty))"
proof -
  have "typeCallback L S T cb (le_nat hdr) (le_nat [f0, f1]) (unat t) rest
      = Raised (Error (''Unrecognised type '' @ name ty))"
    using assms(2,3) by (rule typeCallback_unknown_name [where T = T])
  then show ?thesis by (simp only: metadataParse_header [OF assms(1)])
qed

lemma metadataParse_never_raises:
  assumes "length hdr = (if js_lt (tdsVersion opts) ''7_2'' then 2 else 4)"
    and "T (unat t) = Some ty" and "name ty \<in> set switch_names"
  shows "\<forall>e. metadataParse L S T opts deliver (hdr @ f0 # f1 # t # rest) \<noteq> Raised e"
proof -
  have "never_raises (typeCallback L S T deliver (le_nat hdr) (le_nat [f0, f1]) (unat t))"
    using assms(2,3) by (rule never_raises_typeCallback [where T = T and ty = ty])
  then show ?thesis
    by (simp only: metadataParse_header [OF assms(1)] never_raises_def) simp
qed

lemma metadataParse_delivers_long:
  assumes "length hdr = (if js_lt (tdsVersion opts) ''7_2'' then 2 else 4)"
    and "T (unat t) = Some ty" and "name ty \<in> set switch_names"
    and len: "132607 \<le> length rest"
  shows "\<exists>md rest'. metadataParse L S T opts deliver (hdr @ f0 # f1 # t # rest)
      = Delivered (md, rest')"
proof -
  have "delivers_from 132607
      (typeCallback L S T deliver (le_nat hdr) (le_nat [f0, f1]) (unat t))"
    using assms(2,3) by (rule typeCallback_delivers [where T = T and ty = ty])
  with len have "\<exists>r. typeCallback L S T deliver (le_nat hdr) (le_nat [f0, f1]) (unat t) rest
      = Delivered r"
    by (simp add: delivers_from_def)
  then show ?thesis
    by (simp only: metadataParse_header [OF assms(1)]) auto
qed

text \<open>
  Claim C5, as amended. With less than the header of the column buffered the parser is
  suspended. With the header buffered, \<open>metadataParse\<close> raises in two cases and in no
  other: the type id does not resolve in the registry (the error
  \<open>Unrecognised data type 0x\<close> followed by the id as two upper-case hexadecimal digits), or
  it resolves to a type whose name the \<open>switch\<close> has no \<open>case\<close> for (the error
  \<open>Unrecognised type\<close> followed by the name). When the id resolves to a type with one of the
  names of the \<open>switch\<close>, nothing is raised, and the metadata record is delivered to the
  callback as soon as the bytes of the column are buffered, the parser standing right
  after them: no byte for the fixed-length types, one for the nullable fixed-length types
  and for the types with a scale, two for the binary types, four for \<open>Variant\<close> and
  \<open>Image\<close>, seven and nine for the character and the text types, three for \<open>NumericN\<close>
  and \<open>DecimalN\<close>, the schema block of \<open>Xml\<close> and the type information of \<open>UDT\<close>, as long
  as their own length prefixes say. In any case 132607 bytes after the type id are enough.
\<close>

theorem metadataParse_raises:
  assumes "length hdr = (if js_lt (tdsVersion opts) ''7_2'' then 2 else 4)"
  shows "(length inp < length hdr + 3 \<longrightarrow> metadataParse L S T opts cb inp = Suspended)
    \<and> (T (unat t) = None \<longrightarrow>
         metadataParse L S T opts cb (hdr @ f0 # f1 # t # rest)
           = Raised (Error (''Unrecognised data type 0x''
                            @ [hex_digit (unat t div 16), hex_digit (unat t mod 16)])))
    \<and> (T (unat t) = Some ty \<and> name ty \<notin> set switch_names \<longrightarrow>
         metadataParse L S T opts cb (hdr @ f0 # f1 # t # rest)
           = Raised (Error (''Unrecognised type '' @ name ty)))
    \<and> (T (unat t) = Some ty \<and> name ty \<in> set switch_names \<longrightarrow>
         (\<forall>e. metadataParse L S T opts deliver (hdr @ f0 # f1 # t # rest) \<noteq> Raised e)
         \<and> (132607 \<le> length rest \<longrightarrow>
              (\<exists>md rest'. metadataParse L S T opts deliver (hdr @ f0 # f1 # t # rest)
                             = Delivered (md, rest'))))
    \<and> (T (unat t) = Some ty \<and> name ty \<in> {''Null'', ''TinyInt'', ''SmallInt'', ''Int'', ''BigInt'', ''Real'', ''Float'', ''SmallMoney'', ''Money'', ''Bit'', ''SmallDateTime'', ''DateTime'', ''Date''} \<longrightarrow>
         metadataParse L S T opts cb (hdr @ f0 # f1 # t # rest)
           = cb \<lparr> userType = le_nat hdr, flags = le_nat [f0, f1], type = ty,
               collation = None,
               precision = None, scale = None, dataLength = None,
               schema = None, udtInfo = None \<rparr> rest)
    \<and> (T (unat t) = Some ty \<and> name ty \<in> {''IntN'', ''FloatN'', ''MoneyN'', ''BitN'', ''UniqueIdentifier'', ''DateTimeN''} \<longrightarrow>
         metadataParse L S T opts cb (hdr @ f0 # f1 # t # d # rest)
           = cb \<lparr> userType = le_nat hdr, flags = le_nat [f0, f1], type = ty,
               collation = None,
               precision = None, scale = None, dataLength = Some (unat d),
               schema = None, udtInfo = None \<rparr> rest)
    \<and> (T (unat t) = Some ty \<and> name ty \<in> {''Variant'', ''Image''} \<longrightarrow>
         metadataParse L S T opts cb (hdr @ f0 # f1 # t # d0 # d1 # d2 # d3 # rest)
           = cb \<lparr> userType = le_nat hdr, flags = le_nat [f0, f1], type = ty,
               collation = None,
               precision = None, scale = None, dataLength = Some (le_nat [d0, d1, d2, d3]),
               schema = None, udtInfo = None \<rparr> rest)
    \<and> (T (unat t) = Some ty \<and> name ty \<in> {''VarChar'', ''Char'', ''NVarChar'', ''NChar''} \<longrightarrow>
         metadataParse L S T opts cb (hdr @ f0 # f1 # t # l0 # l1 # c0 # c1 # c2 # c3 # c4 # rest)
           = cb \<lparr> userType = le_nat hdr, flags = le_nat [f0, f1], type = ty,
               collation = Some (parseCollation L S [c0, c1, c2, c3, c4]),
               precision = None, scale = None, dataLength = Some (le_nat [l0, l1]),
               schema = None, udtInfo = None \<rparr> rest)
    \<and> (T (unat t) = Some ty \<and> name ty \<in> {''Text'', ''NText''} \<longrightarrow>
         metadataParse L S T opts cb (hdr @ f0 # f1 # t # d0 # d1 # d2 # d3 # c0 # c1 # c2 # c3 # c4 # rest)
           = cb \<lparr> userType = le_nat hdr, flags = le_nat [f0, f1], type = ty,
               collation = Some (parseCollation L S [c0, c1, c2, c3, c4]),
               precision = None, scale = None, dataLength = Some (le_nat [d0, d1, d2, d3]),
               schema = None, udtInfo = None \<rparr> rest)
    \<and> (T (unat t) = Some ty \<and> name ty \<in> {''VarBinary'', ''Binary''} \<longrightarrow>
         metadataParse L S T opts cb (hdr @ f0 # f1 # t # l0 # l1 # rest)
           = cb \<lparr> userType = le_nat hdr, flags = le_nat [f0, f1], type = ty,
               collation = None,
               precision = None, scale = None, dataLength = Some (le_nat [l0, l1]),
               schema = None, udtInfo = None \<rparr> rest)
    \<and> (T (unat t) = Some ty \<and> name ty \<in> {''Xml''} \<and> unat present \<noteq> 1 \<longrightarrow>
         metadataParse L S T opts cb (hdr @ f0 # f1 # t # present # rest)
           = cb \<lparr> userType = le_nat hdr, flags = le_nat [f0, f1], type = ty,
               collation = None,
               precision = None, scale = None, dataLength = None,
               schema = None, udtInfo = None \<rparr> rest)
    \<and> (T (unat t) = Some ty \<and> name ty \<in> {''Xml''} \<and> length s1 = 2 * unat n1 \<and> length s2 = 2 * unat n2 \<and> length s3 = 2 * le_nat [l0, l1] \<longrightarrow>
         metadataParse L S T opts cb (hdr @ f0 # f1 # t # 1 # n1 # s1 @ n2 # s2 @ l0 # l1 # s3 @ rest)
           = cb \<lparr> userType = le_nat hdr, flags = le_nat [f0, f1], type = ty,
               collation = None,
               precision = None, scale = None, dataLength = None,
               schema = Some \<lparr> XmlSchema.dbname = ucs2 s1, XmlSchema.owningSchema = ucs2 s2,
                                xmlSchemaCollection = ucs2 s3 \<rparr>, udtInfo = None \<rparr> rest)
    \<and> (T (unat t) = Some ty \<and> name ty \<in> {''Time'', ''DateTime2'', ''DateTimeOffset''} \<longrightarrow>
         metadataParse L S T opts cb (hdr @ f0 # f1 # t # s # rest)
           = cb \<lparr> userType = le_nat hdr, flags = le_nat [f0, f1], type = ty,
               collation = None,
               precision = None, scale = Some (unat s), dataLength = None,
               schema = None, udtInfo = None \<rparr> rest)
    \<and> (T (unat t) = Some ty \<and> name ty \<in> {''NumericN'', ''DecimalN''} \<longrightarrow>
         metadataParse L S T opts cb (hdr @ f0 # f1 # t # d # p # s # rest)
           = cb \<lparr> userType = le_nat hdr, flags = le_nat [f0, f1], type = ty,
               collation = None,
               precision = Some (unat p), scale = Some (unat s), dataLength = Some (unat d),
               schema = None, udtInfo = None \<rparr> rest)
    \<and> (T (unat t) = Some ty \<and> name ty \<in> {''UDT''} \<and> length s1 = 2 * unat n1 \<and> length s2 = 2 * unat n2 \<and> length s3 = 2 * unat n3 \<and> length s4 = 2 * le_nat [l0, l1] \<longrightarrow>
         metadataParse L S T opts cb (hdr @ f0 # f1 # t # m0 # m1 # n1 # s1 @ n2 # s2 @ n3 # s3 @ l0 # l1 # s4 @ rest)
           = cb \<lparr> userType = le_nat hdr, flags = le_nat [f0, f1], type = ty,
               collation = None,
               precision = None, scale = None, dataLength = None,
               schema = None, udtInfo = Some \<lparr> maxByteSize = le_nat [m0, m1], dbname = ucs2 s1, owningSchema = ucs2 s2,
                                 typeName = ucs2 s3, assemblyName = ucs2 s4 \<rparr> \<rparr> rest)"
  apply (intro conjI impI)
  subgoal by (rule metadataParse_short) (simp add: assms)
  subgoal by (rule metadataParse_unknown_id [OF assms])
  subgoal by (elim conjE, rule metadataParse_unknown_name [OF assms])
  subgoal by (elim conjE, rule metadataParse_never_raises [OF assms])
  subgoal by (elim conjE, rule metadataParse_delivers_long [OF assms])
  subgoal by (elim conjE, rule metadataParse_fixed [OF assms])
  subgoal by (elim conjE, rule metadataParse_u8_length [OF assms])
  subgoal by (elim conjE, rule metadataParse_u32_length [OF assms])
  subgoal by (elim conjE, rule metadataParse_VarChar [OF assms])
  subgoal by (elim conjE, rule metadataParse_Text [OF assms])
  subgoal by (elim conjE, rule metadataParse_VarBinary [OF assms])
  subgoal by (elim conjE, rule metadataParse_Xml_absent [OF assms])
  subgoal by (elim conjE, rule metadataParse_Xml_present [OF assms])
  subgoal by (elim conjE, rule metadataParse_Time [OF assms])
  subgoal by (elim conjE, rule metadataParse_NumericN [OF assms])
  subgoal by (elim conjE, rule metadataParse_UDT [OF assms])
  done

theorem metadataParse_raises_witness:
  "metadataParse Map.empty Map.empty TYPE_sample options_sample deliver [2, 0, 0, 0, 3, 0]
      = Suspended
   \<and> metadataParse Map.empty Map.empty TYPE_sample options_sample deliver
        ([2, 0, 0, 0] @ 3 # 0 # 0x0F # [1])
      = Raised (Error ''Unrecognised data type 0x0F'')
   \<and> metadataParse Map.empty Map.empty TYPE_sample options_sample deliver
        ([2, 0, 0, 0] @ 3 # 0 # 0x37 # [1])
      = Raised (Error ''Unrecognised type Decimal'')
   \<and> (\<exists>md rest'. metadataParse Map.empty Map.empty TYPE_sample options_sample deliver
        ([2, 0, 0, 0] @ 3 # 0 # 0x38 # replicate 132607 0)
      = Delivered (md, rest'))
   \<and> metadataParse Map.empty Map.empty TYPE_sample options_sample deliver
        ([2, 0, 0, 0] @ 3 # 0 # 0x38 # [4, 0x6E])
      = Delivered (\<lparr> userType = 2, flags = 3, type = \<lparr> id' = 0x38, type' = ''INT4'', name = ''Int'' \<rparr>,
          collation = None, precision = None, scale = None,
          dataLength = None, schema = None,
          udtInfo = None \<rparr>,
          [4, 0x6E])
   \<and> metadataParse Map.empty Map.empty TYPE_sample options_sample deliver
        ([2, 0, 0, 0] @ 3 # 0 # 0x26 # 4 # [4, 0x6E])
      = Delivered (\<lparr> userType = 2, flags = 3, type = \<lparr> id' = 0x26, type' = ''INTN'', name = ''IntN'' \<rparr>,
          collation = None, precision = None, scale = None,
          dataLength = Some 4, schema = None,
          udtInfo = None \<rparr>,
          [4, 0x6E])
   \<and> metadataParse Map.empty Map.empty TYPE_sample options_sample deliver
        ([2, 0, 0, 0] @ 3 # 0 # 0x62 # 1 # 2 # 0 # 0 # [4, 0x6E])
      = Delivered (\<lparr> userType = 2, flags = 3, type = \<lparr> id' = 0x62, type' = ''SSVARIANT'', name = ''Variant'' \<rparr>,
          collation = None, precision = None, scale = None,
          dataLength = Some 513, schema = None,
          udtInfo = None \<rparr>,
          [4, 0x6E])
   \<and> metadataParse Map.empty Map.empty TYPE_sample options_sample deliver
        ([2, 0, 0, 0] @ 3 # 0 # 0xA7 # 3 # 0 # 0x09 # 0x04 # 0x50 # 0x78 # 0x9A # [4, 0x6E])
      = Delivered (\<lparr> userType = 2, flags = 3, type = \<lparr> id' = 0xA7, type' = ''BIGVARCHR'', name = ''VarChar'' \<rparr>,
          collation = Some (parseCollation Map.empty Map.empty [0x09, 0x04, 0x50, 0x78, 0x9A]), precision = None, scale = None,
          dataLength = Some 3, schema = None,
          udtInfo = None \<rparr>,
          [4, 0x6E])
   \<and> metadataParse Map.empty Map.empty TYPE_sample options_sample deliver
        ([2, 0, 0, 0] @ 3 # 0 # 0x23 # 1 # 2 # 0 # 0 # 0x09 # 0x04 # 0x50 # 0x78 # 0x9A # [4, 0x6E])
      = Delivered (\<lparr> userType = 2, flags = 3, type = \<lparr> id' = 0x23, type' = ''TEXT'', name = ''Text'' \<rparr>,
          collation = Some (parseCollation Map.empty Map.empty [0x09, 0x04, 0x50, 0x78, 0x9A]), precision = None, scale = None,
          dataLength = Some 513, schema = None,
          udtInfo = None \<rparr>,
          [4, 0x6E])
   \<and> metadataParse Map.empty Map.empty TYPE_sample options_sample deliver
        ([2, 0, 0, 0] @ 3 # 0 # 0xA5 # 3 # 0 # [4, 0x6E])
      = Delivered (\<lparr> userType = 2, flags = 3, type = \<lparr> id' = 0xA5, type' = ''BIGVARBIN'', name = ''VarBinary'' \<rparr>,
          collation = None, precision = None, scale = None,
          dataLength = Some 3, schema = None,
          udtInfo = None \<rparr>,
          [4, 0x6E])
   \<and> metadataParse Map.empty Map.empty TYPE_sample options_sample deliver
        ([2, 0, 0, 0] @ 3 # 0 # 0xF1 # 0 # [4, 0x6E])
      = Delivered (\<lparr> userType = 2, flags = 3, type = \<lparr> id' = 0xF1, type' = ''XML'', name = ''Xml'' \<rparr>,
          collation = None, precision = None, scale = None,
          dataLength = None, schema = None,
          udtInfo = None \<rparr>,
          [4, 0x6E])
   \<and> metadataParse Map.empty Map.empty TYPE_sample options_sample deliver
        ([2, 0, 0, 0] @ 3 # 0 # 0xF1 # 1 # 1 # [0x41, 0] @ 0 # [] @ 1 # 0 # [0x42, 0] @ [4, 0x6E])
      = Delivered (\<lparr> userType = 2, flags = 3, type = \<lparr> id' = 0xF1, type' = ''XML'', name = ''Xml'' \<rparr>,
          collation = None, precision = None, scale = None,
          dataLength = None, schema = Some \<lparr> XmlSchema.dbname = [0x41], XmlSchema.owningSchema = [],
            xmlSchemaCollection = [0x42] \<rparr>,
          udtInfo = None \<rparr>,
          [4, 0x6E])
   \<and> metadataParse Map.empty Map.empty TYPE_sample options_sample deliver
        ([2, 0, 0, 0] @ 3 # 0 # 0x29 # 7 # [4, 0x6E])
      = Delivered (\<lparr> userType = 2, flags = 3, type = \<lparr> id' = 0x29, type' = ''TIMEN'', name = ''Time'' \<rparr>,
          collation = None, precision = None, scale = Some 7,
          dataLength = None, schema = None,
          udtInfo = None \<rparr>,
          [4, 0x6E])
   \<and> metadataParse Map.empty Map.empty TYPE_sample options_sample deliver
        ([2, 0, 0, 0] @ 3 # 0 # 0x6C # 9 # 18 # 4 # [4, 0x6E])
      = Delivered (\<lparr> userType = 2, flags = 3, type = \<lparr> id' = 0x6C, type' = ''NUMERICN'', name = ''NumericN'' \<rparr>,
          collation = None, precision = Some 18, scale = Some 4,
          dataLength = Some 9, schema = None,
          udtInfo = None \<rparr>,
          [4, 0x6E])
   \<and> metadataParse Map.empty Map.empty TYPE_sample options_sample deliver
        ([2, 0, 0, 0] @ 3 # 0 # 0xF0 # 8 # 0 # 1 # [0x41, 0] @ 0 # [] @ 1 # [0x43, 0] @ 1 # 0 # [0x42, 0] @ [4, 0x6E])
      = Delivered (\<lparr> userType = 2, flags = 3, type = \<lparr> id' = 0xF0, type' = ''UDTTYPE'', name = ''UDT'' \<rparr>,
          collation = None, precision = None, scale = None,
          dataLength = None, schema = None,
          udtInfo = Some \<lparr> maxByteSize = 8, dbname = [0x41], owningSchema = [],
            typeName = [0x43], assemblyName = [0x42] \<rparr> \<rparr>,
          [4, 0x6E])"
proof -
  have len: "length [2, 0, 0, 0 :: byte]
      = (if js_lt (tdsVersion options_sample) ''7_2'' then 2 else 4)"
    by (simp add: options_sample_def)
  note th = metadataParse_raises [OF len, where L = Map.empty and S = Map.empty
      and T = TYPE_sample and cb = deliver and ?f0.0 = 3 and ?f1.0 = 0]
  have short: "length [2, 0, 0, 0, 3, 0 :: byte] < length [2, 0, 0, 0 :: byte] + 3"
    by simp
  have a: "metadataParse Map.empty Map.empty TYPE_sample options_sample deliver
      [2, 0, 0, 0, 3, 0] = Suspended"
    by (rule th [THEN conjunct1, THEN mp, OF short])
  have none: "TYPE_sample (unat (0x0F :: byte)) = None"
    by (simp add: TYPE_sample_def)
  have digits: "[hex_digit (unat (0x0F :: byte) div 16), hex_digit (unat (0x0F :: byte) mod 16)]
      = ''0F''"
    by (simp add: hex_digit_def)
  have b: "metadataParse Map.empty Map.empty TYPE_sample options_sample deliver
      ([2, 0, 0, 0] @ 3 # 0 # 0x0F # [1]) = Raised (Error ''Unrecognised data type 0x0F'')"
    using th [where t = "0x0F" and rest = "[1]", THEN conjunct2, THEN conjunct1, THEN mp,
        OF none]
    by (simp only: digits) simp
  have dec: "TYPE_sample (unat (0x37 :: byte))
        = Some \<lparr> id' = 0x37, type' = ''DECIMAL'', name = ''Decimal'' \<rparr>
      \<and> name \<lparr> id' = 0x37, type' = ''DECIMAL'', name = ''Decimal'' \<rparr> \<notin> set switch_names"
    by (simp add: TYPE_sample_def switch_names_def)
  have c: "metadataParse Map.empty Map.empty TYPE_sample options_sample deliver
      ([2, 0, 0, 0] @ 3 # 0 # 0x37 # [1]) = Raised (Error ''Unrecognised type Decimal'')"
    using th [where t = "0x37" and rest = "[1]"
        and ty = "\<lparr> id' = 0x37, type' = ''DECIMAL'', name = ''Decimal'' \<rparr>", THEN conjunct2, THEN conjunct2,
        THEN conjunct1, THEN mp, OF dec]
    by simp
  have int: "TYPE_sample (unat (0x38 :: byte))
        = Some \<lparr> id' = 0x38, type' = ''INT4'', name = ''Int'' \<rparr>
      \<and> name \<lparr> id' = 0x38, type' = ''INT4'', name = ''Int'' \<rparr> \<in> set switch_names"
    by (simp add: TYPE_sample_def switch_names_def)
  have long: "132607 \<le> length (replicate 132607 (0 :: byte))"
    by simp
  have d: "\<exists>md rest'. metadataParse Map.empty Map.empty TYPE_sample options_sample deliver
      ([2, 0, 0, 0] @ 3 # 0 # 0x38 # replicate 132607 0) = Delivered (md, rest')"
    by (rule th [where t = "0x38" and rest = "replicate 132607 0"
          and ty = "\<lparr> id' = 0x38, type' = ''INT4'', name = ''Int'' \<rparr>", THEN conjunct2,
          THEN conjunct2, THEN conjunct2, THEN conjunct1, THEN mp, OF int, THEN conjunct2,
          THEN mp, OF long])
  have h5: "TYPE_sample (unat (0x38 :: byte)) = Some \<lparr> id' = 0x38, type' = ''INT4'', name = ''Int'' \<rparr> \<and> name \<lparr> id' = 0x38, type' = ''INT4'', name = ''Int'' \<rparr> \<in> {''Null'', ''TinyInt'', ''SmallInt'', ''Int'', ''BigInt'', ''Real'', ''Float'', ''SmallMoney'', ''Money'', ''Bit'', ''SmallDateTime'', ''DateTime'', ''Date''}"
    by (simp add: TYPE_sample_def)
  have c5: "metadataParse Map.empty Map.empty TYPE_sample options_sample deliver
        ([2, 0, 0, 0] @ 3 # 0 # 0x38 # [4, 0x6E])
      = Delivered (\<lparr> userType = 2, flags = 3, type = \<lparr> id' = 0x38, type' = ''INT4'', name = ''Int'' \<rparr>,
          collation = None, precision = None, scale = None,
          dataLength = None, schema = None,
          udtInfo = None \<rparr>,
          [4, 0x6E])"
    using th [where t = "0x38" and ty = "\<lparr> id' = 0x38, type' = ''INT4'', name = ''Int'' \<rparr>" and rest = "[4, 0x6E]",
        THEN conjunct2, THEN conjunct2, THEN conjunct2, THEN conjunct2, THEN conjunct1, THEN mp, OF h5]
    by (simp add: deliver_def)
  have h6: "TYPE_sample (unat (0x26 :: byte)) = Some \<lparr> id' = 0x26, type' = ''INTN'', name = ''IntN'' \<rparr> \<and> name \<lparr> id' = 0x26, type' = ''INTN'', name = ''IntN'' \<rparr> \<in> {''IntN'', ''FloatN'', ''MoneyN'', ''BitN'', ''UniqueIdentifier'', ''DateTimeN''}"
    by (simp add: TYPE_sample_def)
  have c6: "metadataParse Map.empty Map.empty TYPE_sample options_sample deliver
        ([2, 0, 0, 0] @ 3 # 0 # 0x26 # 4 # [4, 0x6E])
      = Delivered (\<lparr> userType = 2, flags = 3, type = \<lparr> id' = 0x26, type' = ''INTN'', name = ''IntN'' \<rparr>,
          collation = None, precision = None, scale = None,
          dataLength = Some 4, schema = None,
          udtInfo = None \<rparr>,
          [4, 0x6E])"
    using th [where t = "0x26" and ty = "\<lparr> id' = 0x26, type' = ''INTN'', name = ''IntN'' \<rparr>" and rest = "[4, 0x6E]" and d = "4",
        THEN conjunct2, THEN conjunct2, THEN conjunct2, THEN conjunct2, THEN conjunct2, THEN conjunct1, THEN mp, OF h6]
    by (simp add: deliver_def)
  have h7: "TYPE_sample (unat (0x62 :: byte)) = Some \<lparr> id' = 0x62, type' = ''SSVARIANT'', name = ''Variant'' \<rparr> \<and> name \<lparr> id' = 0x62, type' = ''SSVARIANT'', name = ''Variant'' \<rparr> \<in> {''Variant'', ''Image''}"
    by (simp add: TYPE_sample_def)
  have c7: "metadataParse Map.empty Map.empty TYPE_sample options_sample deliver
        ([2, 0, 0, 0] @ 3 # 0 # 0x62 # 1 # 2 # 0 # 0 # [4, 0x6E])
      = Delivered (\<lparr> userType = 2, flags = 3, type = \<lparr> id' = 0x62, type' = ''SSVARIANT'', name = ''Variant'' \<rparr>,
          collation = None, precision = None, scale = None,
          dataLength = Some 513, schema = None,
          udtInfo = None \<rparr>,
          [4, 0x6E])"
    using th [where t = "0x62" and ty = "\<lparr> id' = 0x62, type' = ''SSVARIANT'', name = ''Variant'' \<rparr>" and rest = "[4, 0x6E]" and ?d0.0 = "1" and ?d1.0 = "2" and ?d2.0 = "0" and ?d3.0 = "0",
        THEN conjunct2, THEN conjunct2, THEN conjunct2, THEN conjunct2, THEN conjunct2, THEN conjunct2, THEN conjunct1, THEN mp, OF h7]
    by (simp add: deliver_def)
  have h8: "TYPE_sample (unat (0xA7 :: byte)) = Some \<lparr> id' = 0xA7, type' = ''BIGVARCHR'', name = ''VarChar'' \<rparr> \<and> name \<lparr> id' = 0xA7, type' = ''BIGVARCHR'', name = ''VarChar'' \<rparr> \<in> {''VarChar'', ''Char'', ''NVarChar'', ''NChar''}"
    by (simp add: TYPE_sample_def)
  have c8: "metadataParse Map.empty Map.empty TYPE_sample options_sample deliver
        ([2, 0, 0, 0] @ 3 # 0 # 0xA7 # 3 # 0 # 0x09 # 0x04 # 0x50 # 0x78 # 0x9A # [4, 0x6E])
      = Delivered (\<lparr> userType = 2, flags = 3, type = \<lparr> id' = 0xA7, type' = ''BIGVARCHR'', name = ''VarChar'' \<rparr>,
          collation = Some (parseCollation Map.empty Map.empty [0x09, 0x04, 0x50, 0x78, 0x9A]), precision = None, scale = None,
          dataLength = Some 3, schema = None,
          udtInfo = None \<rparr>,
          [4, 0x6E])"
    using th [where t = "0xA7" and ty = "\<lparr> id' = 0xA7, type' = ''BIGVARCHR'', name = ''VarChar'' \<rparr>" and rest = "[4, 0x6E]" and ?l0.0 = "3" and ?l1.0 = "0" and ?c0.0 = "0x09" and ?c1.0 = "0x04" and ?c2.0 = "0x50" and ?c3.0 = "0x78" and ?c4.0 = "0x9A",
        THEN conjunct2, THEN conjunct2, THEN conjunct2, THEN conjunct2, THEN conjunct2, THEN conjunct2, THEN conjunct2, THEN conjunct1, THEN mp, OF h8]
    by (simp add: deliver_def)
  have h9: "TYPE_sample (unat (0x23 :: byte)) = Some \<lparr> id' = 0x23, type' = ''TEXT'', name = ''Text'' \<rparr> \<and> name \<lparr> id' = 0x23, type' = ''TEXT'', name = ''Text'' \<rparr> \<in> {''Text'', ''NText''}"
    by (simp add: TYPE_sample_def)
  have c9: "metadataParse Map.empty Map.empty TYPE_sample options_sample deliver
        ([2, 0, 0, 0] @ 3 # 0 # 0x23 # 1 # 2 # 0 # 0 # 0x09 # 0x04 # 0x50 # 0x78 # 0x9A # [4, 0x6E])
      = Delivered (\<lparr> userType = 2, flags = 3, type = \<lparr> id' = 0x23, type' = ''TEXT'', name = ''Text'' \<rparr>,
          collation = Some (parseCollation Map.empty Map.empty [0x09, 0x04, 0x50, 0x78, 0x9A]), precision = None, scale = None,
          dataLength = Some 513, schema = None,
          udtInfo = None \<rparr>,
          [4, 0x6E])"
    using th [where t = "0x23" and ty = "\<lparr> id' = 0x23, type' = ''TEXT'', name = ''Text'' \<rparr>" and rest = "[4, 0x6E]" and ?d0.0 = "1" and ?d1.0 = "2" and ?d2.0 = "0" and ?d3.0 = "0" and ?c0.0 = "0x09" and ?c1.0 = "0x04" and ?c2.0 = "0x50" and ?c3.0 = "0x78" and ?c4.0 = "0x9A",
        THEN conjunct2, THEN conjunct2, THEN conjunct2, THEN conjunct2, THEN conjunct2, THEN conjunct2, THEN conjunct2, THEN conjunct2, THEN conjunct1, THEN mp, OF h9]
    by (simp add: deliver_def)
  have h10: "TYPE_sample (unat (0xA5 :: byte)) = Some \<lparr> id' = 0xA5, type' = ''BIGVARBIN'', name = ''VarBinary'' \<rparr> \<and> name \<lparr> id' = 0xA5, type' = ''BIGVARBIN'', name = ''VarBinary'' \<rparr> \<in> {''VarBinary'', ''Binary''}"
    by (simp add: TYPE_sample_def)
  have c10: "metadataParse Map.empty Map.empty TYPE_sample options_sample deliver
        ([2, 0, 0, 0] @ 3 # 0 # 0xA5 # 3 # 0 # [4, 0x6E])
      = Delivered (\<lparr> userType = 2, flags = 3, type = \<lparr> id' = 0xA5, type' = ''BIGVARBIN'', name = ''VarBinary'' \<rparr>,
          collation = None, precision = None, scale = None,
          dataLength = Some 3, schema = None,
          udtInfo = None \<rparr>,
          [4, 0x6E])"
    using th [where t = "0xA5" and ty = "\<lparr> id' = 0xA5, type' = ''BIGVARBIN'', name = ''VarBinary'' \<rparr>" and rest = "[4, 0x6E]" and ?l0.0 = "3" and ?l1.0 = "0",
        THEN conjunct2, THEN conjunct2, THEN conjunct2, THEN conjunct2, THEN conjunct2, THEN conjunct2, THEN conjunct2, THEN conjunct2, THEN conjunct2, THEN conjunct1, THEN mp, OF h10]
    by (simp add: deliver_def)
  have h11: "TYPE_sample (unat (0xF1 :: byte)) = Some \<lparr> id' = 0xF1, type' = ''XML'', name = ''Xml'' \<rparr> \<and> name \<lparr> id' = 0xF1, type' = ''XML'', name = ''Xml'' \<rparr> \<in> {''Xml''} \<and> unat (0 :: byte) \<noteq> 1"
    by (simp add: TYPE_sample_def)
  have c11: "metadataParse Map.empty Map.empty TYPE_sample options_sample deliver
        ([2, 0, 0, 0] @ 3 # 0 # 0xF1 # 0 # [4, 0x6E])
      = Delivered (\<lparr> userType = 2, flags = 3, type = \<lparr> id' = 0xF1, type' = ''XML'', name = ''Xml'' \<rparr>,
          collation = None, precision = None, scale = None,
          dataLength = None, schema = None,
          udtInfo = None \<rparr>,
          [4, 0x6E])"
    using th [where t = "0xF1" and ty = "\<lparr> id' = 0xF1, type' = ''XML'', name = ''Xml'' \<rparr>" and rest = "[4, 0x6E]" and present = "0",
        THEN conjunct2, THEN conjunct2, THEN conjunct2, THEN conjunct2, THEN conjunct2, THEN conjunct2, THEN conjunct2, THEN conjunct2, THEN conjunct2, THEN conjunct2, THEN conjunct1, THEN mp, OF h11]
    by (simp add: deliver_def)
  have h12: "TYPE_sample (unat (0xF1 :: byte)) = Some \<lparr> id' = 0xF1, type' = ''XML'', name = ''Xml'' \<rparr> \<and> name \<lparr> id' = 0xF1, type' = ''XML'', name = ''Xml'' \<rparr> \<in> {''Xml''} \<and> length [0x41, 0 :: byte] = 2 * unat (1 :: byte) \<and> length ([] :: byte list) = 2 * unat (0 :: byte) \<and> length [0x42, 0 :: byte] = 2 * le_nat [1, 0]"
    by (simp add: TYPE_sample_def)
  have c12: "metadataParse Map.empty Map.empty TYPE_sample options_sample deliver
        ([2, 0, 0, 0] @ 3 # 0 # 0xF1 # 1 # 1 # [0x41, 0] @ 0 # [] @ 1 # 0 # [0x42, 0] @ [4, 0x6E])
      = Delivered (\<lparr> userType = 2, flags = 3, type = \<lparr> id' = 0xF1, type' = ''XML'', name = ''Xml'' \<rparr>,
          collation = None, precision = None, scale = None,
          dataLength = None, schema = Some \<lparr> XmlSchema.dbname = [0x41], XmlSchema.owningSchema = [],
            xmlSchemaCollection = [0x42] \<rparr>,
          udtInfo = None \<rparr>,
          [4, 0x6E])"
    using th [where t = "0xF1" and ty = "\<lparr> id' = 0xF1, type' = ''XML'', name = ''Xml'' \<rparr>" and rest = "[4, 0x6E]" and ?n1.0 = "1" and ?s1.0 = "[0x41, 0]" and ?n2.0 = "0" and ?s2.0 = "[]" and ?l0.0 = "1" and ?l1.0 = "0" and ?s3.0 = "[0x42, 0]",
        THEN conjunct2, THEN conjunct2, THEN conjunct2, THEN conjunct2, THEN conjunct2, THEN conjunct2, THEN conjunct2, THEN conjunct2, THEN conjunct2, THEN conjunct2, THEN conjunct2, THEN conjunct1, THEN mp, OF h12]
    by (simp add: deliver_def)
  have h13: "TYPE_sample (unat (0x29 :: byte)) = Some \<lparr> id' = 0x29, type' = ''TIMEN'', name = ''Time'' \<rparr> \<and> name \<lparr> id' = 0x29, type' = ''TIMEN'', name = ''Time'' \<rparr> \<in> {''Time'', ''DateTime2'', ''DateTimeOffset''}"
    by (simp add: TYPE_sample_def)
  have c13: "metadataParse Map.empty Map.empty TYPE_sample options_sample deliver
        ([2, 0, 0, 0] @ 3 # 0 # 0x29 # 7 # [4, 0x6E])
      = Delivered (\<lparr> userType = 2, flags = 3, type = \<lparr> id' = 0x29, type' = ''TIMEN'', name = ''Time'' \<rparr>,
          collation = None, precision = None, scale = Some 7,
          dataLength = None, schema = None,
          udtInfo = None \<rparr>,
          [4, 0x6E])"
    using th [where t = "0x29" and ty = "\<lparr> id' = 0x29, type' = ''TIMEN'', name = ''Time'' \<rparr>" and rest = "[4, 0x6E]" and s = "7",
        THEN conjunct2, THEN conjunct2, THEN conjunct2, THEN conjunct2, THEN conjunct2, THEN conjunct2, THEN conjunct2, THEN conjunct2, THEN conjunct2, THEN conjunct2, THEN conjunct2, THEN conjunct2, THEN conjunct1, THEN mp, OF h13]
    by (simp add: deliver_def)
  have h14: "TYPE_sample (unat (0x6C :: byte)) = Some \<lparr> id' = 0x6C, type' = ''NUMERICN'', name = ''NumericN'' \<rparr> \<and> name \<lparr> id' = 0x6C, type' = ''NUMERICN'', name = ''NumericN'' \<rparr> \<in> {''NumericN'', ''DecimalN''}"
    by (simp add: TYPE_sample_def)
  have c14: "metadataParse Map.empty Map.empty TYPE_sample options_sample deliver
        ([2, 0, 0, 0] @ 3 # 0 # 0x6C # 9 # 18 # 4 # [4, 0x6E])
      = Delivered (\<lparr> userType = 2, flags = 3, type = \<lparr> id' = 0x6C, type' = ''NUMERICN'', name = ''NumericN'' \<rparr>,
          collation = None, precision = Some 18, scale = Some 4,
          dataLength = Some 9, schema = None,
          udtInfo = None \<rparr>,
          [4, 0x6E])"
    using th [where t = "0x6C" and ty = "\<lparr> id' = 0x6C, type' = ''NUMERICN'', name = ''NumericN'' \<rparr>" and rest = "[4, 0x6E]" and d = "9" and p = "18" and s = "4",
        THEN conjunct2, THEN conjunct2, THEN conjunct2, THEN conjunct2, THEN conjunct2, THEN conjunct2, THEN conjunct2, THEN conjunct2, THEN conjunct2, THEN conjunct2, THEN conjunct2, THEN conjunct2, THEN conjunct2, THEN conjunct1, THEN mp, OF h14]
    by (simp add: deliver_def)
  have h15: "TYPE_sample (unat (0xF0 :: byte)) = Some \<lparr> id' = 0xF0, type' = ''UDTTYPE'', name = ''UDT'' \<rparr> \<and> name \<lparr> id' = 0xF0, type' = ''UDTTYPE'', name = ''UDT'' \<rparr> \<in> {''UDT''} \<and> length [0x41, 0 :: byte] = 2 * unat (1 :: byte) \<and> length ([] :: byte list) = 2 * unat (0 :: byte) \<and> length [0x43, 0 :: byte] = 2 * unat (1 :: byte) \<and> length [0x42, 0 :: byte] = 2 * le_nat [1, 0]"
    by (simp add: TYPE_sample_def)
  have c15: "metadataParse Map.empty Map.empty TYPE_sample options_sample deliver
        ([2, 0, 0, 0] @ 3 # 0 # 0xF0 # 8 # 0 # 1 # [0x41, 0] @ 0 # [] @ 1 # [0x43, 0] @ 1 # 0 # [0x42, 0] @ [4, 0x6E])
      = Delivered (\<lparr> userType = 2, flags = 3, type = \<lparr> id' = 0xF0, type' = ''UDTTYPE'', name = ''UDT'' \<rparr>,
          collation = None, precision = None, scale = None,
          dataLength = None, schema = None,
          udtInfo = Some \<lparr> maxByteSize = 8, dbname = [0x41], owningSchema = [],
            typeName = [0x43], assemblyName = [0x42] \<rparr> \<rparr>,
          [4, 0x6E])"
    using th [where t = "0xF0" and ty = "\<lparr> id' = 0xF0, type' = ''UDTTYPE'', name = ''UDT'' \<rparr>" and rest = "[4, 0x6E]" and ?m0.0 = "8" and ?m1.0 = "0" and ?n1.0 = "1" and ?s1.0 = "[0x41, 0]" and ?n2.0 = "0" and ?s2.0 = "[]" and ?n3.0 = "1" and ?s3.0 = "[0x43, 0]" and ?l0.0 = "1" and ?l1.0 = "0" and ?s4.0 = "[0x42, 0]",
        THEN conjunct2, THEN conjunct2, THEN conjunct2, THEN conjunct2, THEN conjunct2, THEN conjunct2, THEN conjunct2, THEN conjunct2, THEN conjunct2, THEN conjunct2, THEN conjunct2, THEN conjunct2, THEN conjunct2, THEN conjunct2, THEN mp, OF h15]
    by (simp add: deliver_def)
  from a b c d c5 c6 c7 c8 c9 c10 c11 c12 c13 c14 c15 show ?thesis by (intro conjI)
qed

text \<open>
  Claim C5 as stated fails: in the sample registry the id \<open>0x37\<close> resolves, and the decoder
  raises.
\<close>

theorem metadataParse_raises_counterexample:
  "TYPE_sample 0x37 = Some \<lparr> id' = 0x37, type' = ''DECIMAL'', name = ''Decimal'' \<rparr>
   \<and> metadataParse Map.empty Map.empty TYPE_sample options_sample deliver
        [0, 0, 0, 0, 0, 0, 0x37, 17, 38, 0]
      = Raised (Error ''Unrecognised type Decimal'')"
  by (simp add: TYPE_sample_def options_sample_def metadataParse_def typeCallback_def
      readUInt32LE_def readUInt16LE_def readUInt8_def awaitData_def)


section \<open>Properties of \<open>SmallDateTime\<close>\<close>

text \<open>
  Claim C7, as amended. \<open>SmallDateTime.validate\<close> returns \<open>null\<close> for \<open>null\<close> and for
  \<open>undefined\<close>. A \<open>Date\<close> is kept and any other value is coerced by \<open>Date.parse\<close>. When
  \<open>Date.parse\<close> returns and the date so obtained is invalid, a \<open>TypeError\<close> with the
  message \<open>Invalid date.\<close> is the returned value, not a thrown one; when the date is valid
  it is returned. When \<open>Date.parse\<close> itself throws, as it does for a \<open>Symbol\<close>, \<open>validate\<close>
  throws that error.
\<close>

theorem validate_contract:
  "validate parse JNull = Inr ReturnedNull
   \<and> validate parse JUndefined = Inr ReturnedNull
   \<and> validate parse (JDate None) = Inr (ReturnedTypeError ''Invalid date.'')
   \<and> validate parse (JDate (Some t)) = Inr (ReturnedDate (Some t))
   \<and> validate parse (JOther x)
       = (case parse x of
            Inl e \<Rightarrow> Inl e
          | Inr None \<Rightarrow> Inr (ReturnedTypeError ''Invalid date.'')
          | Inr (Some t) \<Rightarrow> Inr (ReturnedDate (Some t)))
   \<and> validate parse JSymbol = Inl (TypeError ''Cannot convert a Symbol value to a string'')"
  by (simp add: validate_def split: option.split sum.split)

text \<open>
  Claim C7 as stated fails: for a \<open>Symbol\<close>, which is neither \<open>null\<close> nor \<open>undefined\<close>,
  \<open>validate\<close> throws and returns nothing.
\<close>

theorem validate_contract_counterexample:
  "\<not> is_nullish (JSymbol :: string js_value)
   \<and> validate Date_parse_sample JSymbol
       = Inl (TypeError ''Cannot convert a Symbol value to a string'')"
  by (simp add: validate_def)

text \<open>
  Claim C10. For a parameter whose value is \<open>null\<close> or \<open>undefined\<close>,
  \<open>generateParameterLength\<close> returns the single byte \<open>0x00\<close>, \<open>generateParameterData\<close>
  yields no chunk and \<open>toBuffer\<close> returns an empty buffer.
\<close>

theorem SmallDateTime_null_value:
  assumes "value p = JNull \<or> value p = JUndefined"
  shows "generateParameterLength p opts = [0x00]
    \<and> generateParameterData tz p opts = Inr []
    \<and> toBuffer tz p opts = Inr []"
  using assms
  by (auto simp add: generateParameterLength_def generateParameterData_def toBuffer_def
      NULL_LENGTH_def)

theorem SmallDateTime_null_value_witness:
  "generateParameterLength \<lparr> value = JNull :: unit js_value \<rparr> options_sample = [0x00]
   \<and> generateParameterData UTC_zone \<lparr> value = JNull :: unit js_value \<rparr> options_sample = Inr []
   \<and> toBuffer UTC_zone \<lparr> value = JNull :: unit js_value \<rparr> options_sample = Inr []
   \<and> generateParameterLength \<lparr> value = JUndefined :: unit js_value \<rparr> options_sample = [0x00]
   \<and> generateParameterData UTC_zone \<lparr> value = JUndefined :: unit js_value \<rparr> options_sample
       = Inr []
   \<and> toBuffer UTC_zone \<lparr> value = JUndefined :: unit js_value \<rparr> options_sample = Inr []"
  using SmallDateTime_null_value [of "\<lparr> value = JNull :: unit js_value \<rparr>" options_sample UTC_zone]
    SmallDateTime_null_value [of "\<lparr> value = JUndefined :: unit js_value \<rparr>" options_sample
      UTC_zone]
  by simp

lemma encoders_agree:
  "map_sum id concat (generateParameterData tz p opts) = toBuffer tz p opts"
  by (simp add: generateParameterData_def toBuffer_def Let_def split: sum.split prod.split)

lemma byte_of_int: "uint (word_of_int d :: byte) = d mod 256"
  by (simp add: uint_word_of_int)

lemma le_nat_u16:
  assumes "0 \<le> d" "d < 65536"
  shows "int (le_nat [word_of_int d, word_of_int (d div 256)]) = d"
proof -
  have "d div 256 < 256" using assms by simp
  moreover have "0 \<le> d div 256" using assms by simp
  ultimately have "(d div 256) mod 256 = d div 256" by simp
  then have "d mod 256 + 256 * ((d div 256) mod 256) = d" by simp
  then show ?thesis by (simp add: byte_of_int)
qed

lemma writeUInt16LE_0:
  assumes "0 \<le> d" "d < 65536"
  shows "writeUInt16LE [a, b, c, e] (Some d) 0
    = Inr [word_of_int d, word_of_int (d div 256), c, e]"
  using assms by (simp add: writeUInt16LE_def)

lemma writeUInt16LE_2:
  assumes "0 \<le> d" "d < 65536"
  shows "writeUInt16LE [a, b, c, e] (Some d) 2
    = Inr [a, b, word_of_int d, word_of_int (d div 256)]"
  using assms by (simp add: writeUInt16LE_def numeral_2_eq_2)


lemma utc_minutes_range:
  "0 \<le> getUTCHours t * 60 + getUTCMinutes t" "getUTCHours t * 60 + getUTCMinutes t < 65536"
proof -
  have h: "0 \<le> getUTCHours t" "getUTCHours t < 24" by (simp_all add: getUTCHours_def)
  have m: "0 \<le> getUTCMinutes t" "getUTCMinutes t < 60" by (simp_all add: getUTCMinutes_def)
  show "0 \<le> getUTCHours t * 60 + getUTCMinutes t" using h m by simp
  show "getUTCHours t * 60 + getUTCMinutes t < 65536" using h m by linarith
qed

lemma utc_days_range:
  assumes "UTC_EPOCH_DATE \<le> t" "t < UTC_EPOCH_DATE + 65536 * 86400000"
  shows "0 \<le> (t - UTC_EPOCH_DATE) div 86400000" "(t - UTC_EPOCH_DATE) div 86400000 < 65536"
  using assms by simp_all

lemma encode_bytes:
  assumes d: "0 \<le> d" "d < 65536" and m: "0 \<le> m" "m < 65536"
    and dm: "days_minutes tz (value p) opts = Inr (Some d, Some m)"
  shows "generateParameterData tz p opts
      = Inr [[word_of_int d, word_of_int (d div 256), word_of_int m, word_of_int (m div 256)]]"
    and "toBuffer tz p opts
      = Inr [word_of_int d, word_of_int (d div 256), word_of_int m, word_of_int (m div 256)]"
proof -
  have nn: "\<not> is_nullish (value p)"
    using dm by (cases "value p") (simp_all add: days_minutes_def)
  have alloc: "Buffer_alloc 4 = [0, 0, 0, 0]"
    by (simp add: Buffer_alloc_def numeral_eq_Suc)
  show "generateParameterData tz p opts
      = Inr [[word_of_int d, word_of_int (d div 256), word_of_int m, word_of_int (m div 256)]]"
    by (simp add: generateParameterData_def nn dm alloc writeUInt16LE_0 [OF d]
        writeUInt16LE_2 [OF m])
  show "toBuffer tz p opts
      = Inr [word_of_int d, word_of_int (d div 256), word_of_int m, word_of_int (m div 256)]"
    by (simp add: toBuffer_def nn dm alloc writeUInt16LE_0 [OF d] writeUInt16LE_2 [OF m])
qed

text \<open>
  Claim C8, as amended. The two encoders always agree: the chunks of
  \<open>generateParameterData\<close>, put together, are the buffer of \<open>toBuffer\<close>, and one throws
  when the other does. For a valid \<open>Date\<close> from 1900-01-01T00:00:00Z to the last
  millisecond of 2079-06-06 (UTC), with \<open>options.useUTC\<close> set, they emit exactly four
  bytes: a little-endian u16 that is the number of whole days from 1900-01-01 (UTC) to the
  value, then a little-endian u16 that is the value's UTC hours times 60 plus its UTC
  minutes.
\<close>

theorem SmallDateTime_encode_utc:
  "map_sum id concat (generateParameterData tz p opts) = toBuffer tz p opts
   \<and> (useUTC opts \<and> value p = JDate (Some t)
        \<and> UTC_EPOCH_DATE \<le> t \<and> t < UTC_EPOCH_DATE + 65536 * 86400000 \<longrightarrow>
       (\<exists>b0 b1 b2 b3.
          generateParameterData tz p opts = Inr [[b0, b1, b2, b3]]
          \<and> toBuffer tz p opts = Inr [b0, b1, b2, b3]
          \<and> int (le_nat [b0, b1]) = (t - UTC_EPOCH_DATE) div 86400000
          \<and> int (le_nat [b2, b3]) = getUTCHours t * 60 + getUTCMinutes t))"
proof (intro conjI impI)
  show "map_sum id concat (generateParameterData tz p opts) = toBuffer tz p opts"
    by (rule encoders_agree)
next
  assume a: "useUTC opts \<and> value p = JDate (Some t)
        \<and> UTC_EPOCH_DATE \<le> t \<and> t < UTC_EPOCH_DATE + 65536 * 86400000"
  let ?d = "(t - UTC_EPOCH_DATE) div 86400000"
  let ?m = "getUTCHours t * 60 + getUTCMinutes t"
  have d: "0 \<le> ?d" "?d < 65536" using a utc_days_range [of t] by simp_all
  have m: "0 \<le> ?m" "?m < 65536" by (rule utc_minutes_range)+
  have dm: "days_minutes tz (value p) opts = Inr (Some ?d, Some ?m)"
    using a by (simp add: days_minutes_def)
  show "\<exists>b0 b1 b2 b3.
          generateParameterData tz p opts = Inr [[b0, b1, b2, b3]]
          \<and> toBuffer tz p opts = Inr [b0, b1, b2, b3]
          \<and> int (le_nat [b0, b1]) = ?d
          \<and> int (le_nat [b2, b3]) = ?m"
    using encode_bytes [OF d m dm] le_nat_u16 [OF d] le_nat_u16 [OF m] by blast
qed

text \<open>
  Claim C8 as stated fails for a \<open>Date\<close> outside that range: 2100-01-01T00:00:00Z is 73049
  days after the epoch, which no u16 holds, and both encoders throw instead of emitting
  bytes.
\<close>

theorem SmallDateTime_encode_utc_counterexample:
  "useUTC options_sample
   \<and> (4102444800000 - UTC_EPOCH_DATE) div 86400000 = 73049
   \<and> generateParameterData UTC_zone \<lparr> value = JDate (Some 4102444800000) :: unit js_value \<rparr>
        options_sample = Inl ERR_OUT_OF_RANGE
   \<and> toBuffer UTC_zone \<lparr> value = JDate (Some 4102444800000) :: unit js_value \<rparr>
        options_sample = Inl ERR_OUT_OF_RANGE"
  by (simp add: options_sample_def UTC_EPOCH_DATE_def generateParameterData_def toBuffer_def
      days_minutes_def writeUInt16LE_def Buffer_alloc_def)

theorem SmallDateTime_encode_utc_witness:
  "\<exists>b0 b1 b2 b3.
      generateParameterData UTC_zone \<lparr> value = JDate (Some 1604381400000) :: unit js_value \<rparr>
        options_sample = Inr [[b0, b1, b2, b3]]
      \<and> toBuffer UTC_zone \<lparr> value = JDate (Some 1604381400000) :: unit js_value \<rparr>
        options_sample = Inr [b0, b1, b2, b3]
      \<and> int (le_nat [b0, b1]) = 44136
      \<and> int (le_nat [b2, b3]) = 330"
proof -
  have hyp: "useUTC options_sample
      \<and> value \<lparr> value = JDate (Some 1604381400000) :: unit js_value \<rparr>
          = JDate (Some 1604381400000)
      \<and> UTC_EPOCH_DATE \<le> 1604381400000
      \<and> 1604381400000 < UTC_EPOCH_DATE + 65536 * 86400000"
    by (simp add: options_sample_def UTC_EPOCH_DATE_def)
  have d: "(1604381400000 - UTC_EPOCH_DATE) div 86400000 = 44136"
    by (simp add: UTC_EPOCH_DATE_def)
  have m: "getUTCHours 1604381400000 * 60 + getUTCMinutes 1604381400000 = 330"
    by (simp add: getUTCHours_def getUTCMinutes_def)
  show ?thesis
    using SmallDateTime_encode_utc [where tz = UTC_zone and opts = options_sample
        and t = 1604381400000
        and p = "\<lparr> value = JDate (Some 1604381400000) :: unit js_value \<rparr>",
        THEN conjunct2, THEN mp, OF hyp]
    by (simp only: d m)
qed

end
